theory Spec2Isabelle
  imports Main "HOL-Library.Char_ord" "HOL-Library.List_Lexorder"
begin

section \<open>BoringPomodoro: timer state machine, task list and session analytics\<close>

text \<open>
  The development embeds the React contexts of the application as pure state
  transformers. Every \<open>useState\<close> cell and every \<open>useRef\<close> cell of a provider is a
  field of a record; a handler takes the record and returns it updated. JavaScript
  numbers that hold counts, seconds, minutes and epoch milliseconds are \<open>int\<close>;
  \<open>NaN\<close>, \<open>null\<close> and \<open>undefined\<close> are \<open>None\<close>. \<open>Date.now()\<close> and the ISO date
  of the current day are parameters \<open>now\<close> and \<open>today\<close> of the handlers that read the
  clock. A handler runs to completion on the state it is given; its \<open>await\<close>s are
  not interleaved with other handlers. The variables of a render that a memoised
  handler closes over are an explicit argument of the handler (for the memoised
  \<open>startTimerInternal\<close>, a field of the state), and the refs are read from the state. Calls deferred with \<open>setTimeout\<close> are queued in the state and fired
  by a function of their own.
\<close>

subsection \<open>JavaScript arithmetic\<close>

text \<open>The remainder operator \<open>a % b\<close> on integers: \<open>NaN\<close> for a zero divisor,
  otherwise truncated towards zero, with the sign of the dividend.\<close>

definition jsRem :: "int \<Rightarrow> int \<Rightarrow> int option" where
  "jsRem a b = (if b = 0 then None else Some (sgn a * (\<bar>a\<bar> mod \<bar>b\<bar>)))"

text \<open>\<open>Math.round\<close> of the quotient \<open>a / b\<close> for a positive divisor: the nearest
  integer, halves rounded up.\<close>

definition roundDiv :: "int \<Rightarrow> int \<Rightarrow> int" where
  "roundDiv a b = (2 * a + b) div (2 * b)"

subsection \<open>SettingsContext\<close>

datatype AlarmSound = Bell | Chime | Digital | Gentle | NoAlarm

datatype AmbientSound = NoAmbient | Rain | Forest | Cafe | Ocean | Fireplace

record TimerSettings =
  workDuration :: int
  shortBreakDuration :: int
  longBreakDuration :: int
  autoStartNext :: bool
  pomodorosUntilLongBreak :: int

text \<open>\<open>AppSettings\<close>, without the fields no modelled handler reads (volume, theme,
  accent colour, premium flag).\<close>

record AppSettings =
  timer :: TimerSettings
  alarmSound :: AlarmSound
  ambientSound :: AmbientSound

definition defaultSettings :: AppSettings where
  "defaultSettings =
     \<lparr>timer = \<lparr>workDuration = 25, shortBreakDuration = 5, longBreakDuration = 15,
               autoStartNext = False, pomodorosUntilLongBreak = 4\<rparr>,
      alarmSound = Bell, ambientSound = NoAmbient\<rparr>"

text \<open>\<open>Partial<TimerSettings>\<close>: a field is present or absent.\<close>

record TimerSettingsUpdates =
  upd_workDuration :: "int option"
  upd_shortBreakDuration :: "int option"
  upd_longBreakDuration :: "int option"
  upd_autoStartNext :: "bool option"
  upd_pomodorosUntilLongBreak :: "int option"

definition noUpdates :: TimerSettingsUpdates where
  "noUpdates =
     \<lparr>upd_workDuration = None, upd_shortBreakDuration = None, upd_longBreakDuration = None,
      upd_autoStartNext = None, upd_pomodorosUntilLongBreak = None\<rparr>"

text \<open>\<open>{ ...prev.timer, ...updates }\<close>\<close>

definition spreadTimer :: "TimerSettings \<Rightarrow> TimerSettingsUpdates \<Rightarrow> TimerSettings" where
  "spreadTimer t u =
     \<lparr>workDuration = (case upd_workDuration u of None \<Rightarrow> workDuration t | Some v \<Rightarrow> v),
      shortBreakDuration =
        (case upd_shortBreakDuration u of None \<Rightarrow> shortBreakDuration t | Some v \<Rightarrow> v),
      longBreakDuration =
        (case upd_longBreakDuration u of None \<Rightarrow> longBreakDuration t | Some v \<Rightarrow> v),
      autoStartNext = (case upd_autoStartNext u of None \<Rightarrow> autoStartNext t | Some v \<Rightarrow> v),
      pomodorosUntilLongBreak =
        (case upd_pomodorosUntilLongBreak u of None \<Rightarrow> pomodorosUntilLongBreak t
         | Some v \<Rightarrow> v)\<rparr>"

definition updateTimerSettings :: "TimerSettingsUpdates \<Rightarrow> AppSettings \<Rightarrow> AppSettings" where
  "updateTimerSettings updates prev = prev\<lparr>timer := spreadTimer (timer prev) updates\<rparr>"

subsection \<open>SettingsScreen: the duration rows\<close>

definition isWhiteSpace :: "char \<Rightarrow> bool" where
  "isWhiteSpace c \<longleftrightarrow> c \<in> set [CHR '' '', CHR 0x09, CHR 0x0A, CHR 0x0B, CHR 0x0C, CHR 0x0D]"

definition isDigit :: "char \<Rightarrow> bool" where
  "isDigit c \<longleftrightarrow> CHR ''0'' \<le> c \<and> c \<le> CHR ''9''"

definition digitValue :: "char \<Rightarrow> int" where
  "digitValue c = int (of_char c) - 48"

definition digitsValue :: "string \<Rightarrow> int" where
  "digitsValue ds = foldl (\<lambda>acc c. 10 * acc + digitValue c) 0 ds"

text \<open>\<open>parseInt(s, 10)\<close> on an ASCII string: leading white space is skipped, one
  sign is read, then the longest run of decimal digits; \<open>NaN\<close> when that run is
  empty. What follows the digits is ignored.\<close>

definition parseInt :: "string \<Rightarrow> int option" where
  "parseInt s =
     (let t = dropWhile isWhiteSpace s;
          neg = (case t of [] \<Rightarrow> False | c # _ \<Rightarrow> c = CHR ''-'');
          u = (case t of [] \<Rightarrow> [] | c # r \<Rightarrow> if c = CHR ''-'' \<or> c = CHR ''+'' then r else t);
          ds = takeWhile isDigit u
      in if ds = [] then None
         else Some (if neg then - digitsValue ds else digitsValue ds))"

text \<open>\<open>DurationRow.handleBlur\<close>: the number handed to \<open>onChange\<close>. \<open>value\<close> is the
  setting currently shown in the row.\<close>

definition handleBlur :: "int \<Rightarrow> string \<Rightarrow> int" where
  "handleBlur val inputValue =
     (let num = (case parseInt inputValue of None \<Rightarrow> val | Some n \<Rightarrow> n)
      in max 1 (min 90 num))"

datatype DurationField = WorkDurationRow | ShortBreakRow | LongBreakRow

definition rowValue :: "DurationField \<Rightarrow> AppSettings \<Rightarrow> int" where
  "rowValue f s =
     (case f of WorkDurationRow \<Rightarrow> workDuration (timer s)
      | ShortBreakRow \<Rightarrow> shortBreakDuration (timer s)
      | LongBreakRow \<Rightarrow> longBreakDuration (timer s))"

text \<open>The \<open>onChange\<close> of each of the three rows.\<close>

definition rowOnChange :: "DurationField \<Rightarrow> int \<Rightarrow> AppSettings \<Rightarrow> AppSettings" where
  "rowOnChange f v s =
     (case f of
        WorkDurationRow \<Rightarrow> updateTimerSettings (noUpdates\<lparr>upd_workDuration := Some v\<rparr>) s
      | ShortBreakRow \<Rightarrow> updateTimerSettings (noUpdates\<lparr>upd_shortBreakDuration := Some v\<rparr>) s
      | LongBreakRow \<Rightarrow> updateTimerSettings (noUpdates\<lparr>upd_longBreakDuration := Some v\<rparr>) s)"

text \<open>Leaving the text field of a row after typing \<open>inputValue\<close>.\<close>

definition blurRow :: "DurationField \<Rightarrow> string \<Rightarrow> AppSettings \<Rightarrow> AppSettings" where
  "blurRow f inputValue s = rowOnChange f (handleBlur (rowValue f s) inputValue) s"

text \<open>The minus and plus buttons of a row.\<close>

definition pressMinus :: "DurationField \<Rightarrow> AppSettings \<Rightarrow> AppSettings" where
  "pressMinus f s = rowOnChange f (max 1 (rowValue f s - 1)) s"

definition pressPlus :: "DurationField \<Rightarrow> AppSettings \<Rightarrow> AppSettings" where
  "pressPlus f s = rowOnChange f (min 90 (rowValue f s + 1)) s"

subsection \<open>InsightsContext: session records\<close>

datatype FocusCategory = Work | Study | Personal | Health | Other

record FocusSession =
  session_id :: string
  date :: string
  duration :: int
  session_category :: FocusCategory
  taskId :: "string option"
  taskTitle :: "string option"
  session_completedAt :: int

text \<open>\<open>Omit<FocusSession, "id" | "completedAt">\<close>\<close>

record SessionData =
  data_date :: string
  data_duration :: int
  data_category :: FocusCategory
  data_taskId :: "string option"
  data_taskTitle :: "string option"

record InsightsState =
  sessions :: "FocusSession list"
  selectedCategory :: FocusCategory

definition digitChar :: "nat \<Rightarrow> char" where
  "digitChar d = char_of (48 + d)"

fun natToString :: "nat \<Rightarrow> string" where
  "natToString n = (if n < 10 then [digitChar n] else natToString (n div 10) @ [digitChar (n mod 10)])"

text \<open>\<open>Number.prototype.toString\<close> on an integer.\<close>

definition toString :: "int \<Rightarrow> string" where
  "toString i = (if i < 0 then CHR ''-'' # natToString (nat (- i)) else natToString (nat i))"

definition addSession :: "int \<Rightarrow> SessionData \<Rightarrow> InsightsState \<Rightarrow> InsightsState" where
  "addSession now sessionData st =
     (let newSession =
            \<lparr>session_id = toString now, date = data_date sessionData,
             duration = data_duration sessionData,
             session_category = data_category sessionData,
             taskId = data_taskId sessionData, taskTitle = data_taskTitle sessionData,
             session_completedAt = now\<rparr>
      in st\<lparr>sessions := sessions st @ [newSession]\<rparr>)"

subsection \<open>InsightsContext: streaks\<close>

text \<open>\<open>[...new Set(xs)]\<close>: the distinct elements in the order of their first
  occurrence.\<close>

definition uniq :: "'a list \<Rightarrow> 'a list" where
  "uniq xs = foldl (\<lambda>seen x. if x \<in> set seen then seen else seen @ [x]) [] xs"

text \<open>\<open>new Date(s).getTime()\<close> for a date-only string: midnight UTC of that day in
  epoch milliseconds, \<open>NaN\<close> for an invalid date. The day count of the platform's
  date parser is the parameter \<open>dayNumber\<close>.\<close>

definition getTime :: "(string \<Rightarrow> int option) \<Rightarrow> string \<Rightarrow> int option" where
  "getTime dayNumber s = map_option (\<lambda>d. d * 86400000) (dayNumber s)"

text \<open>\<open>Math.round((previousDate.getTime() - currentDate.getTime()) / 86400000)\<close>\<close>

definition dayDiff :: "(string \<Rightarrow> int option) \<Rightarrow> string \<Rightarrow> string \<Rightarrow> int option" where
  "dayDiff dayNumber previousDate currentDate =
     (case (getTime dayNumber previousDate, getTime dayNumber currentDate) of
        (Some p, Some c) \<Rightarrow> Some (roundDiv (p - c) 86400000)
      | _ \<Rightarrow> None)"

text \<open>The first loop of \<open>calculateStreaks\<close>; the state is
  \<open>(bestStreak, tempStreak)\<close>, \<open>prev\<close> is \<open>uniqueDates[i - 1]\<close> once \<open>i > 0\<close>.\<close>

fun bestLoop ::
  "(string \<Rightarrow> int option) \<Rightarrow> string option \<Rightarrow> string list \<Rightarrow> int \<times> int \<Rightarrow> int \<times> int" where
  "bestLoop dayNumber prev [] acc = acc"
| "bestLoop dayNumber prev (cur # rest) (bestStreak, tempStreak) =
     bestLoop dayNumber (Some cur) rest
       (case prev of
          None \<Rightarrow> (bestStreak, 1)
        | Some p \<Rightarrow>
            if dayDiff dayNumber p cur = Some 1 then (bestStreak, tempStreak + 1)
            else (max bestStreak tempStreak, 1))"

text \<open>The second loop, from \<open>i = 1\<close>, leaving at the first gap.\<close>

fun currentLoop :: "(string \<Rightarrow> int option) \<Rightarrow> string \<Rightarrow> string list \<Rightarrow> int \<Rightarrow> int" where
  "currentLoop dayNumber prev [] tempStreak = tempStreak"
| "currentLoop dayNumber prev (cur # rest) tempStreak =
     (if dayDiff dayNumber prev cur = Some 1 then currentLoop dayNumber cur rest (tempStreak + 1)
      else tempStreak)"

record Streaks =
  current :: int
  best :: int

text \<open>\<open>today\<close> is \<open>getDateString()\<close> and \<open>yesterday\<close> is
  \<open>getDateString(new Date(Date.now() - 86400000))\<close>.\<close>

definition calculateStreaks ::
  "(string \<Rightarrow> int option) \<Rightarrow> string \<Rightarrow> string \<Rightarrow> FocusSession list \<Rightarrow> Streaks" where
  "calculateStreaks dayNumber today yesterday ss =
     (if ss = [] then \<lparr>current = 0, best = 0\<rparr>
      else
        (case rev (sort (uniq (map date ss))) of
           [] \<Rightarrow> \<lparr>current = 0, best = 0\<rparr>
         | first # rest \<Rightarrow>
             (let streakActive = (first = today \<or> first = yesterday);
                  (bestStreak, tempStreak) = bestLoop dayNumber None (first # rest) (0, 0);
                  bestStreak = max bestStreak tempStreak;
                  currentStreak =
                    (if streakActive then currentLoop dayNumber first rest 1 else 0)
              in \<lparr>current = currentStreak, best = bestStreak\<rparr>)))"

text \<open>The streak algorithm as the specification words it, on the distinct session
  dates sorted descending: the list is cut into runs, a gap of exactly one day
  between neighbours continues a run and any other gap starts a new one.\<close>

definition oneDayGap :: "(string \<Rightarrow> int option) \<Rightarrow> string \<Rightarrow> string \<Rightarrow> bool" where
  "oneDayGap dayNumber later earlier =
     (case (dayNumber later, dayNumber earlier) of
        (Some a, Some b) \<Rightarrow> a - b = 1
      | _ \<Rightarrow> False)"

fun spec_runs :: "(string \<Rightarrow> int option) \<Rightarrow> string list \<Rightarrow> string list list" where
  "spec_runs dayNumber [] = []"
| "spec_runs dayNumber [d] = [[d]]"
| "spec_runs dayNumber (d # e # ds) =
     (if oneDayGap dayNumber d e then
        (case spec_runs dayNumber (e # ds) of
           [] \<Rightarrow> [[d]]
         | r # rs \<Rightarrow> (d # r) # rs)
      else [d] # spec_runs dayNumber (e # ds))"

definition spec_dates :: "FocusSession list \<Rightarrow> string list" where
  "spec_dates ss = rev (sort (remdups (map date ss)))"

definition spec_active :: "string \<Rightarrow> string \<Rightarrow> string list \<Rightarrow> bool" where
  "spec_active today yesterday ds =
     (case ds of [] \<Rightarrow> False | d # _ \<Rightarrow> d = today \<or> d = yesterday)"

text \<open>The length of the longest run, 0 when there is none.\<close>

definition maxRun :: "string list list \<Rightarrow> int" where
  "maxRun rs = foldr (\<lambda>r m. max (int (length r)) m) rs 0"

definition spec_bestStreak :: "(string \<Rightarrow> int option) \<Rightarrow> string list \<Rightarrow> int" where
  "spec_bestStreak dayNumber ds = maxRun (spec_runs dayNumber ds)"

definition spec_currentStreak ::
  "(string \<Rightarrow> int option) \<Rightarrow> string \<Rightarrow> string \<Rightarrow> string list \<Rightarrow> int" where
  "spec_currentStreak dayNumber today yesterday ds =
     (if spec_active today yesterday ds then
        (case spec_runs dayNumber ds of [] \<Rightarrow> 0 | r # _ \<Rightarrow> int (length r))
      else 0)"

text \<open>The day count of a calendar date \<open>YYYY-MM-DD\<close> (days since 1970-01-01 in the
  proleptic Gregorian calendar), as the platform's parser reads a date-only ISO
  string; any other string is an invalid date. It instantiates \<open>dayNumber\<close> in the
  concrete evaluations.\<close>

definition daysFromCivil :: "int \<Rightarrow> int \<Rightarrow> int \<Rightarrow> int" where
  "daysFromCivil y m d =
     (let y' = (if m \<le> 2 then y - 1 else y);
          era = y' div 400;
          yoe = y' - era * 400;
          mp = (if m > 2 then m - 3 else m + 9);
          doy = (153 * mp + 2) div 5 + d - 1;
          doe = yoe * 365 + yoe div 4 - yoe div 100 + doy
      in era * 146097 + doe - 719468)"

definition daysInMonth :: "int \<Rightarrow> int \<Rightarrow> int" where
  "daysInMonth y m =
     (if m = 2 then (if y mod 4 = 0 \<and> (y mod 100 \<noteq> 0 \<or> y mod 400 = 0) then 29 else 28)
      else if m = 4 \<or> m = 6 \<or> m = 9 \<or> m = 11 then 30 else 31)"

definition isoDayNumber :: "string \<Rightarrow> int option" where
  "isoDayNumber s =
     (if length s = 10 \<and> s ! 4 = CHR ''-'' \<and> s ! 7 = CHR ''-'' \<and>
         list_all isDigit (take 4 s @ take 2 (drop 5 s) @ drop 8 s)
      then
        (let y = digitsValue (take 4 s); m = digitsValue (take 2 (drop 5 s));
             d = digitsValue (drop 8 s)
         in if 1 \<le> m \<and> m \<le> 12 \<and> 1 \<le> d \<and> d \<le> daysInMonth y m
            then Some (daysFromCivil y m d) else None)
      else None)"

subsection \<open>TaskContext\<close>

record Task =
  task_id :: string
  title :: string
  description :: "string option"
  category :: FocusCategory
  pomodoroEstimate :: int
  pomodorosCompleted :: int
  completed :: bool
  completedAt :: "int option"
  createdAt :: int
  task_order :: int

text \<open>The state of the provider. \<open>completeTimeouts\<close> holds the pending
  \<open>setTimeout(() => completeTask(id), 0)\<close> calls in the order they were scheduled,
  each with the \<open>currentTaskId\<close> its \<open>completeTask\<close> closure has captured.\<close>

record TaskState =
  tasks :: "Task list"
  archivedTasks :: "Task list"
  currentTaskId :: "string option"
  completeTimeouts :: "(string \<times> string option) list"

text \<open>\<open>tasks.find((task) => task.id === currentTaskId) || null\<close>\<close>

definition currentTask :: "TaskState \<Rightarrow> Task option" where
  "currentTask st =
     (case currentTaskId st of
        None \<Rightarrow> None
      | Some i \<Rightarrow> find (\<lambda>task. task_id task = i) (tasks st))"

definition addTask ::
  "int \<Rightarrow> string \<Rightarrow> string option \<Rightarrow> int \<Rightarrow> FocusCategory \<Rightarrow> TaskState \<Rightarrow> TaskState" where
  "addTask now ttl descr estimate cat st =
     (let newTask =
            \<lparr>task_id = toString now, title = ttl, description = descr, category = cat,
             pomodoroEstimate = estimate, pomodorosCompleted = 0, completed = False,
             completedAt = None, createdAt = now, task_order = int (length (tasks st))\<rparr>
      in st\<lparr>tasks := tasks st @ [newTask]\<rparr>)"

text \<open>\<open>completeTask\<close>; \<open>captured\<close> is the \<open>currentTaskId\<close> of its closure.\<close>

definition completeTask :: "int \<Rightarrow> string option \<Rightarrow> string \<Rightarrow> TaskState \<Rightarrow> TaskState" where
  "completeTask now captured i st =
     (let st' =
            (case find (\<lambda>task. task_id task = i) (tasks st) of
               None \<Rightarrow> st
             | Some taskToComplete \<Rightarrow>
                 (let completedTask = taskToComplete\<lparr>completed := True, completedAt := Some now\<rparr>
                  in st\<lparr>archivedTasks := completedTask # archivedTasks st,
                        tasks := filter (\<lambda>task. task_id task \<noteq> i) (tasks st)\<rparr>))
      in if captured = Some i then st'\<lparr>currentTaskId := None\<rparr> else st')"

definition incrementPomodoro :: "string \<Rightarrow> TaskState \<Rightarrow> TaskState" where
  "incrementPomodoro i st =
     st\<lparr>tasks :=
          map (\<lambda>task. if task_id task \<noteq> i then task
                       else task\<lparr>pomodorosCompleted := pomodorosCompleted task + 1\<rparr>)
            (tasks st),
        completeTimeouts :=
          completeTimeouts st @
          map (\<lambda>task. (i, currentTaskId st))
            (filter (\<lambda>task. task_id task = i \<and>
                               pomodorosCompleted task + 1 \<ge> pomodoroEstimate task)
               (tasks st))\<rparr>"

text \<open>The event loop firing every pending \<open>completeTask\<close> timeout, oldest first.\<close>

definition flushTimeouts :: "int \<Rightarrow> TaskState \<Rightarrow> TaskState" where
  "flushTimeouts now st =
     foldl (\<lambda>acc (i, captured). completeTask now captured i acc)
       (st\<lparr>completeTimeouts := []\<rparr>) (completeTimeouts st)"

definition restoreTask :: "string \<Rightarrow> TaskState \<Rightarrow> TaskState" where
  "restoreTask i st =
     (case find (\<lambda>task. task_id task = i) (archivedTasks st) of
        None \<Rightarrow> st
      | Some taskToRestore \<Rightarrow>
          (let restoredTask =
                 taskToRestore\<lparr>completed := False, completedAt := None,
                                pomodorosCompleted := 0,
                                task_order := int (length (tasks st))\<rparr>
           in st\<lparr>tasks := tasks st @ [restoredTask],
                 archivedTasks := filter (\<lambda>task. task_id task \<noteq> i) (archivedTasks st)\<rparr>))"

subsection \<open>AudioService\<close>

text \<open>The ambient part of the service: whether \<open>this.ambientSound\<close> holds a sound
  object, and the service's own playing flag. A boolean argument \<open>ok\<close> of an
  operation says whether the platform call inside its \<open>try\<close> block succeeded.\<close>

record AudioService =
  ambientSoundObj :: bool
  audioIsAmbientPlaying :: bool
  currentAmbientType :: AmbientSound

definition stopAmbientSound :: "AudioService \<Rightarrow> AudioService" where
  "stopAmbientSound a =
     (if ambientSoundObj a then a\<lparr>ambientSoundObj := False, audioIsAmbientPlaying := False\<rparr>
      else a)"

definition pauseAmbientSound :: "bool \<Rightarrow> AudioService \<Rightarrow> AudioService" where
  "pauseAmbientSound ok a =
     (if ambientSoundObj a \<and> audioIsAmbientPlaying a then
        (if ok then a\<lparr>audioIsAmbientPlaying := False\<rparr> else a)
      else a)"

definition playAmbientSound :: "bool \<Rightarrow> AmbientSound \<Rightarrow> AudioService \<Rightarrow> AudioService \<times> bool" where
  "playAmbientSound ok type a =
     (if type = NoAmbient then (stopAmbientSound a, False)
      else
        (let a' = stopAmbientSound a
         in if ok then
              (a'\<lparr>ambientSoundObj := True, audioIsAmbientPlaying := True,
                  currentAmbientType := type\<rparr>, True)
            else (a', False)))"

subsection \<open>PomodoroContext\<close>

datatype TimerMode = Focus | ShortBreak | LongBreak

text \<open>The persisted snapshot (\<open>interface TimerState\<close>).\<close>

record TimerState =
  saved_mode :: TimerMode
  saved_remainingTime :: int
  saved_isPlaying :: bool
  saved_completedPomodoros :: int
  startedAt :: "int option"
  pausedAt :: "int option"

text \<open>The callback the focus screen registers: the values its closure holds.\<close>

record PomodoroCallback =
  cb_workDuration :: int
  cb_effectiveCategory :: FocusCategory
  cb_currentTask :: "Task option"

text \<open>The variables of a render that the memoised handlers close over.\<close>

record Closure =
  c_mode :: TimerMode
  c_remainingTime :: int
  c_completedPomodoros :: int
  c_settings :: AppSettings
  c_onPomodoroComplete :: "PomodoroCallback option"

text \<open>The state cells and refs of the provider. \<open>timerRef\<close> says whether
  \<open>timerRef.current\<close> holds an interval handle; \<open>interval\<close> is the live interval
  with the closure its callback runs in; \<open>startTimeouts\<close> are the pending
  \<open>setTimeout(() => startTimerInternal(), 100)\<close> calls with their closures.
  \<open>memoRender\<close> holds the variables of the render in which \<open>useCallback\<close> last
  created \<open>startTimerInternal\<close>: the interval it sets up calls the
  \<open>handleTimerComplete\<close> of that render.\<close>

record PomodoroState =
  isPlaying :: bool
  timerKey :: int
  mode :: TimerMode
  completedPomodoros :: int
  targetPomodoros :: int
  remainingTime :: int
  isAmbientPlaying :: bool
  isLoaded :: bool
  onPomodoroComplete :: "PomodoroCallback option"
  timerRef :: bool
  interval :: "Closure option"
  startTimeouts :: "Closure list"
  notificationIdRef :: "string option"
  startTimeRef :: "int option"
  userWantsAmbientRef :: bool
  memoRender :: Closure

definition getDuration :: "AppSettings \<Rightarrow> TimerMode \<Rightarrow> int" where
  "getDuration s timerMode =
     (case timerMode of
        Focus \<Rightarrow> workDuration (timer s) * 60
      | ShortBreak \<Rightarrow> shortBreakDuration (timer s) * 60
      | LongBreak \<Rightarrow> longBreakDuration (timer s) * 60)"

text \<open>The state of the first render.\<close>

definition initialPomodoro :: "AppSettings \<Rightarrow> PomodoroState" where
  "initialPomodoro s =
     \<lparr>isPlaying = False, timerKey = 0, mode = Focus, completedPomodoros = 0,
      targetPomodoros = 4, remainingTime = workDuration (timer s) * 60,
      isAmbientPlaying = False, isLoaded = False, onPomodoroComplete = None,
      timerRef = False, interval = None, startTimeouts = [],
      notificationIdRef = None, startTimeRef = None, userWantsAmbientRef = False,
      memoRender =
        \<lparr>c_mode = Focus, c_remainingTime = workDuration (timer s) * 60,
         c_completedPomodoros = 0, c_settings = s, c_onPomodoroComplete = None\<rparr>\<rparr>"

text \<open>JavaScript truthiness of a \<open>number | null\<close>.\<close>

definition truthy :: "int option \<Rightarrow> bool" where
  "truthy v = (case v of None \<Rightarrow> False | Some n \<Rightarrow> n \<noteq> 0)"

text \<open>\<open>loadTimerState\<close>, run once by the mount effect. \<open>data\<close> is the parsed snapshot
  under the storage key, if there is one.\<close>

definition loadTimerState ::
  "int \<Rightarrow> AppSettings \<Rightarrow> TimerState option \<Rightarrow> PomodoroState \<Rightarrow> PomodoroState" where
  "loadTimerState now s data p =
     (case data of
        None \<Rightarrow> p
      | Some state \<Rightarrow>
          (if saved_isPlaying state \<and> truthy (startedAt state) then
             (let elapsed = (now - (case startedAt state of Some t \<Rightarrow> t | None \<Rightarrow> 0)) div 1000;
                  newRemaining = max 0 (saved_remainingTime state - elapsed)
              in if newRemaining > 0 then
                   p\<lparr>mode := saved_mode state, remainingTime := newRemaining,
                     completedPomodoros := saved_completedPomodoros state,
                     isPlaying := False\<rparr>
                 else
                   p\<lparr>mode := saved_mode state, remainingTime := 0,
                     completedPomodoros := saved_completedPomodoros state\<rparr>)
           else
             p\<lparr>mode := saved_mode state,
               remainingTime :=
                 (if saved_remainingTime state \<noteq> 0 then saved_remainingTime state
                  else getDuration s (saved_mode state)),
               completedPomodoros := saved_completedPomodoros state\<rparr>))
     \<lparr>isLoaded := True\<rparr>"

definition saveTimerState :: "int \<Rightarrow> PomodoroState \<Rightarrow> TimerState" where
  "saveTimerState now p =
     \<lparr>saved_mode = mode p, saved_remainingTime = remainingTime p,
      saved_isPlaying = isPlaying p, saved_completedPomodoros = completedPomodoros p,
      startedAt = (if isPlaying p then startTimeRef p else None),
      pausedAt = (if \<not> isPlaying p then Some now else None)\<rparr>"

definition startTimerInternal :: "int \<Rightarrow> Closure \<Rightarrow> PomodoroState \<Rightarrow> PomodoroState" where
  "startTimerInternal now c p =
     p\<lparr>startTimeRef :=
          Some (now - (getDuration (c_settings c) (c_mode c) - c_remainingTime c) * 1000),
       isPlaying := True, timerRef := True, interval := Some c\<rparr>"

subsection \<open>The providers together\<close>

record App =
  settings :: AppSettings
  pomodoro :: PomodoroState
  taskCtx :: TaskState
  insights :: InsightsState
  audio :: AudioService

text \<open>The closure of a handler created by the latest render.\<close>

definition closureOf :: "App \<Rightarrow> Closure" where
  "closureOf app =
     \<lparr>c_mode = mode (pomodoro app), c_remainingTime = remainingTime (pomodoro app),
      c_completedPomodoros = completedPomodoros (pomodoro app),
      c_settings = settings app,
      c_onPomodoroComplete = onPomodoroComplete (pomodoro app)\<rparr>"

text \<open>Rendering the provider again after a state change. \<open>startTimerInternal\<close> is
  memoised on \<open>[mode, remainingTime, getDuration]\<close>, and \<open>getDuration\<close> on
  \<open>[settings.timer]\<close>: it is created anew, in the closure of this render, only when
  one of the three has changed, and kept from the earlier render otherwise.\<close>

definition rerender :: "App \<Rightarrow> App" where
  "rerender app =
     (let m = memoRender (pomodoro app)
      in if c_mode m = mode (pomodoro app) \<and>
            c_remainingTime m = remainingTime (pomodoro app) \<and>
            timer (c_settings m) = timer (settings app)
         then app
         else app\<lparr>pomodoro := (pomodoro app)\<lparr>memoRender := closureOf app\<rparr>\<rparr>)"

subsection \<open>FocusScreen: the completion callback\<close>

text \<open>\<open>currentTask?.category || selectedCategory\<close>\<close>

definition effectiveCategory :: "App \<Rightarrow> FocusCategory" where
  "effectiveCategory app =
     (case currentTask (taskCtx app) of
        Some task \<Rightarrow> category task
      | None \<Rightarrow> selectedCategory (insights app))"

text \<open>The effect that calls \<open>setOnPomodoroComplete\<close>.\<close>

definition registerCallback :: "App \<Rightarrow> App" where
  "registerCallback app =
     app\<lparr>pomodoro := (pomodoro app)
          \<lparr>onPomodoroComplete :=
             (if mode (pomodoro app) = Focus then
                Some \<lparr>cb_workDuration = workDuration (timer (settings app)),
                      cb_effectiveCategory = effectiveCategory app,
                      cb_currentTask = currentTask (taskCtx app)\<rparr>
              else None)\<rparr>\<rparr>"

text \<open>Running the registered callback; \<open>today\<close> is
  \<open>new Date().toISOString().split("T")[0]\<close>.\<close>

definition invokeCallback :: "int \<Rightarrow> string \<Rightarrow> PomodoroCallback \<Rightarrow> App \<Rightarrow> App" where
  "invokeCallback now today cb app =
     (let app' =
            app\<lparr>insights :=
                  addSession now
                    \<lparr>data_date = today, data_duration = cb_workDuration cb,
                     data_category = cb_effectiveCategory cb,
                     data_taskId = map_option task_id (cb_currentTask cb),
                     data_taskTitle = map_option title (cb_currentTask cb)\<rparr>
                    (insights app)\<rparr>
      in case cb_currentTask cb of
           None \<Rightarrow> app'
         | Some task \<Rightarrow> app'\<lparr>taskCtx := incrementPomodoro (task_id task) (taskCtx app')\<rparr>)"

subsection \<open>PomodoroContext: the handlers\<close>

text \<open>\<open>handleTimerComplete\<close> of the render with closure \<open>c\<close>. Playing the alarm and
  sending the immediate notification change nothing of the modelled state.\<close>

definition handleTimerComplete :: "int \<Rightarrow> string \<Rightarrow> Closure \<Rightarrow> App \<Rightarrow> App" where
  "handleTimerComplete now today c app =
     (let app1 =
            app\<lparr>pomodoro := (pomodoro app)
                   \<lparr>isPlaying := False, startTimeRef := None, notificationIdRef := None,
                    isAmbientPlaying := False\<rparr>,
                audio := stopAmbientSound (audio app)\<rparr>
      in if c_mode c = Focus then
           (let newCount = c_completedPomodoros c + 1;
                app2 = app1\<lparr>pomodoro := (pomodoro app1)\<lparr>completedPomodoros := newCount\<rparr>\<rparr>;
                app3 =
                  (case c_onPomodoroComplete c of
                     None \<Rightarrow> app2
                   | Some cb \<Rightarrow> invokeCallback now today cb app2);
                nextMode =
                  (if jsRem newCount (pomodorosUntilLongBreak (timer (c_settings c))) = Some 0
                   then LongBreak else ShortBreak)
            in app3\<lparr>pomodoro := (pomodoro app3)
                     \<lparr>mode := nextMode,
                      remainingTime := getDuration (c_settings c) nextMode,
                      timerKey := timerKey (pomodoro app3) + 1,
                      startTimeouts :=
                        (if autoStartNext (timer (c_settings c))
                         then startTimeouts (pomodoro app3) @ [c]
                         else startTimeouts (pomodoro app3))\<rparr>\<rparr>)
         else
           app1\<lparr>pomodoro := (pomodoro app1)
                  \<lparr>mode := Focus,
                   remainingTime := getDuration (c_settings c) Focus,
                   timerKey := timerKey (pomodoro app1) + 1,
                   startTimeouts :=
                     (if autoStartNext (timer (c_settings c))
                      then startTimeouts (pomodoro app1) @ [c]
                      else startTimeouts (pomodoro app1))\<rparr>\<rparr>)"

text \<open>\<open>completePomodoro\<close>, as the screen calls it.\<close>

definition completePomodoro :: "int \<Rightarrow> string \<Rightarrow> App \<Rightarrow> App" where
  "completePomodoro now today app = handleTimerComplete now today (closureOf app) app"

text \<open>One firing of the one-second interval set up by \<open>startTimerInternal\<close>.\<close>

definition tick :: "int \<Rightarrow> string \<Rightarrow> App \<Rightarrow> App" where
  "tick now today app =
     (case interval (pomodoro app) of
        None \<Rightarrow> app
      | Some c \<Rightarrow>
          (if remainingTime (pomodoro app) \<le> 1 then
             handleTimerComplete now today c
               (app\<lparr>pomodoro := (pomodoro app)
                      \<lparr>interval := (if timerRef (pomodoro app) then None else Some c),
                       remainingTime := 0\<rparr>\<rparr>)
           else
             app\<lparr>pomodoro := (pomodoro app)
                    \<lparr>remainingTime := remainingTime (pomodoro app) - 1\<rparr>\<rparr>))"

text \<open>\<open>startTimer\<close>: \<open>createOk\<close> is the outcome of loading the ambient sound,
  \<open>scheduled\<close> the identifier the notification service returns. It is memoised on
  \<open>[mode, remainingTime, settings, startTimerInternal]\<close>, so the mode, the remaining
  time and the settings it reads are the current ones, and the \<open>startTimerInternal\<close>
  it calls is the memoised one.\<close>

definition startTimer :: "bool \<Rightarrow> string option \<Rightarrow> int \<Rightarrow> App \<Rightarrow> App" where
  "startTimer createOk scheduled now app =
     (let app1 =
            app\<lparr>pomodoro :=
                  startTimerInternal now (memoRender (pomodoro app)) (pomodoro app)\<rparr>;
          app2 =
            (if userWantsAmbientRef (pomodoro app1) \<and> mode (pomodoro app) = Focus \<and>
                ambientSound (settings app) \<noteq> NoAmbient
             then
               (let (a, success) =
                      playAmbientSound createOk (ambientSound (settings app)) (audio app1)
                in app1\<lparr>audio := a,
                        pomodoro := (pomodoro app1)\<lparr>isAmbientPlaying := success\<rparr>\<rparr>)
             else app1)
      in app2\<lparr>pomodoro := (pomodoro app2)\<lparr>notificationIdRef := scheduled\<rparr>\<rparr>)"

text \<open>The interval firing \<open>n\<close> times, the provider rendered again after each firing.\<close>

fun ticks :: "nat \<Rightarrow> int \<Rightarrow> string \<Rightarrow> App \<Rightarrow> App" where
  "ticks 0 now today app = app"
| "ticks (Suc n) now today app = ticks n now today (rerender (tick now today app))"

text \<open>\<open>pauseTimer\<close>: \<open>pauseOk\<close> is the outcome of pausing the sound object.\<close>

definition pauseTimer :: "bool \<Rightarrow> App \<Rightarrow> App" where
  "pauseTimer pauseOk app =
     app\<lparr>pomodoro := (pomodoro app)
            \<lparr>interval := (if timerRef (pomodoro app) then None else interval (pomodoro app)),
             timerRef := False, isPlaying := False, isAmbientPlaying := False,
             notificationIdRef := None\<rparr>,
         audio := pauseAmbientSound pauseOk (audio app)\<rparr>"



text \<open>The application right after mounting, before anything is loaded.\<close>

definition initialApp :: "AppSettings \<Rightarrow> App" where
  "initialApp s =
     \<lparr>settings = s, pomodoro = initialPomodoro s,
      taskCtx = \<lparr>tasks = [], archivedTasks = [], currentTaskId = None, completeTimeouts = []\<rparr>,
      insights = \<lparr>sessions = [], selectedCategory = Work\<rparr>,
      audio = \<lparr>ambientSoundObj = False, audioIsAmbientPlaying = False,
               currentAmbientType = NoAmbient\<rparr>\<rparr>"

subsection \<open>Sample states\<close>

text \<open>Concrete tasks, task lists, an application state and session lists, on
  which the properties below are also evaluated.\<close>

definition sampleTask :: Task where
  "sampleTask =
     \<lparr>task_id = ''1700000000000'', title = ''Write report'', description = None,
      category = Study, pomodoroEstimate = 2, pomodorosCompleted = 1, completed = False,
      completedAt = None, createdAt = 1700000000000, task_order = 0\<rparr>"

definition otherTask :: Task where
  "otherTask =
     \<lparr>task_id = ''1700000000500'', title = ''Read mail'', description = Some ''inbox'',
      category = Work, pomodoroEstimate = 4, pomodorosCompleted = 0, completed = False,
      completedAt = None, createdAt = 1700000000500, task_order = 1\<rparr>"

definition sampleTasks :: TaskState where
  "sampleTasks =
     \<lparr>tasks = [sampleTask, otherTask], archivedTasks = [],
      currentTaskId = Some ''1700000000000'', completeTimeouts = []\<rparr>"

definition archivedSample :: TaskState where
  "archivedSample =
     \<lparr>tasks = [otherTask],
      archivedTasks =
        [sampleTask\<lparr>pomodorosCompleted := 2, completed := True,
                     completedAt := Some 1700000900000\<rparr>],
      currentTaskId = None, completeTimeouts = []\<rparr>"

text \<open>The first use after installation: the providers mount, the focus screen
  registers its callback, nothing is found in storage, and the start button is
  pressed.\<close>

definition firstStart :: App where
  "firstStart =
     rerender (startTimer True (Some ''notification-1'') 1700000000000
       (rerender
          ((rerender (registerCallback (initialApp defaultSettings)))
             \<lparr>pomodoro :=
                loadTimerState 1699999990000 defaultSettings None
                  (pomodoro (rerender (registerCallback (initialApp defaultSettings))))\<rparr>)))"

definition sessionsOn :: "string list \<Rightarrow> FocusSession list" where
  "sessionsOn ds =
     map (\<lambda>d. \<lparr>session_id = ''1700000000000'', date = d, duration = 25,
                session_category = Work, taskId = None, taskTitle = None,
                session_completedAt = 1700000000000\<rparr>) ds"

section \<open>Properties\<close>

subsection \<open>Duration rows\<close>

lemma rowValue_rowOnChange: "rowValue f (rowOnChange f v s) = v"
  by (cases f) (simp_all add: rowValue_def rowOnChange_def updateTimerSettings_def
      spreadTimer_def noUpdates_def)

lemma handleBlur_range: "1 \<le> handleBlur val inputValue \<and> handleBlur val inputValue \<le> 90"
  by (simp add: handleBlur_def Let_def)

lemma parseInt_0: "parseInt ''0'' = Some 0"
  by (simp add: parseInt_def isWhiteSpace_def isDigit_def digitsValue_def digitValue_def)

lemma parseInt_200: "parseInt ''200'' = Some 200"
  by (simp add: parseInt_def isWhiteSpace_def isDigit_def digitsValue_def digitValue_def)

text \<open>
  Claim C6. For every text typed into a duration row (work, short break or long
  break), leaving the field stores a number of minutes between 1 and 90 inclusive:
  the parsed number clamped to that range (the shown value clamped, when the text
  is not a number). Typing 0 for the work duration stores 1; typing 200 stores 90.
  The minus and plus buttons of a row whose value is in the range store the
  neighbouring value clamped to the range.
\<close>

theorem duration_clamped:
  "1 \<le> rowValue f (blurRow f inputValue s) \<and> rowValue f (blurRow f inputValue s) \<le> 90 \<and>
   rowValue f (blurRow f inputValue s) =
     max 1 (min 90 (case parseInt inputValue of None \<Rightarrow> rowValue f s | Some n \<Rightarrow> n)) \<and>
   workDuration (timer (blurRow WorkDurationRow ''0'' s)) = 1 \<and>
   workDuration (timer (blurRow WorkDurationRow ''200'' s)) = 90 \<and>
   (1 \<le> rowValue f s \<and> rowValue f s \<le> 90 \<longrightarrow>
      rowValue f (pressMinus f s) = max 1 (min 90 (rowValue f s - 1)) \<and>
      rowValue f (pressPlus f s) = max 1 (min 90 (rowValue f s + 1)))"
proof -
  have v: "rowValue f (blurRow f inputValue s) = handleBlur (rowValue f s) inputValue"
    by (simp add: blurRow_def rowValue_rowOnChange)
  have w: "workDuration (timer (blurRow WorkDurationRow inp s)) =
           handleBlur (rowValue WorkDurationRow s) inp" for inp
    using rowValue_rowOnChange [of WorkDurationRow] by (simp add: blurRow_def rowValue_def)
  have z: "handleBlur x ''0'' = 1" and h: "handleBlur x ''200'' = 90" for x
    by (simp_all add: handleBlur_def parseInt_0 parseInt_200)
  have b: "rowValue f (pressMinus f s) = max 1 (min 90 (rowValue f s - 1)) \<and>
           rowValue f (pressPlus f s) = max 1 (min 90 (rowValue f s + 1))"
    if "1 \<le> rowValue f s" "rowValue f s \<le> 90"
    using that by (simp add: pressMinus_def pressPlus_def rowValue_rowOnChange)
  have r: "1 \<le> rowValue f (blurRow f inputValue s) \<and>
           rowValue f (blurRow f inputValue s) \<le> 90 \<and>
           rowValue f (blurRow f inputValue s) =
             max 1 (min 90 (case parseInt inputValue of None \<Rightarrow> rowValue f s | Some n \<Rightarrow> n))"
    using handleBlur_range [of "rowValue f s" inputValue]
    by (simp add: v) (simp add: handleBlur_def)
  show ?thesis
    using r b by (simp add: w z h)
qed

theorem duration_clamped_witness:
  "1 \<le> rowValue ShortBreakRow defaultSettings \<and> rowValue ShortBreakRow defaultSettings \<le> 90 \<and>
   rowValue ShortBreakRow (blurRow ShortBreakRow '' 120 min'' defaultSettings) = 90 \<and>
   rowValue ShortBreakRow (blurRow ShortBreakRow ''-3'' defaultSettings) = 1 \<and>
   rowValue ShortBreakRow (blurRow ShortBreakRow ''abc'' defaultSettings) = 5 \<and>
   rowValue ShortBreakRow (pressMinus ShortBreakRow defaultSettings) = 4 \<and>
   rowValue ShortBreakRow (pressPlus ShortBreakRow defaultSettings) = 6"
proof -
  have p: "parseInt '' 120 min'' = Some 120" "parseInt ''-3'' = Some (- 3)"
    "parseInt ''abc'' = None"
    by (simp_all add: parseInt_def isWhiteSpace_def isDigit_def digitsValue_def digitValue_def)
  have d: "rowValue ShortBreakRow defaultSettings = 5"
    by (simp add: rowValue_def defaultSettings_def)
  show ?thesis
    using duration_clamped [of ShortBreakRow "'' 120 min''" defaultSettings]
      duration_clamped [of ShortBreakRow "''-3''" defaultSettings]
      duration_clamped [of ShortBreakRow "''abc''" defaultSettings]
    by (simp add: p d)
qed

subsection \<open>The completion cycle\<close>

lemma invokeCallback_pomodoro: "pomodoro (invokeCallback now today cb app) = pomodoro app"
  by (simp add: invokeCallback_def Let_def split: option.split)



lemma handleTimerComplete_focus:
  assumes "c_mode c = Focus"
  shows "completedPomodoros (pomodoro (handleTimerComplete now today c app)) =
           c_completedPomodoros c + 1"
    and "mode (pomodoro (handleTimerComplete now today c app)) =
           (if jsRem (c_completedPomodoros c + 1)
                 (pomodorosUntilLongBreak (timer (c_settings c))) = Some 0
            then LongBreak else ShortBreak)"
  using assms
  by (simp_all add: handleTimerComplete_def Let_def invokeCallback_pomodoro split: option.split)








subsection \<open>Loading and saving the timer snapshot\<close>


text \<open>The \<open>startedAt\<close> of a snapshot saved while the timer runs is the time stamp
  \<open>startTimerInternal\<close> computed from the clock. It is the number 0 only for a timer
  started exactly as many seconds after the epoch as had already elapsed of it.\<close>

lemma persisted_startedAt:
  "saved_isPlaying (saveTimerState saved (startTimerInternal started c p))"
  "startedAt (saveTimerState saved (startTimerInternal started c p)) =
     Some (started - (getDuration (c_settings c) (c_mode c) - c_remainingTime c) * 1000)"
  "startedAt (saveTimerState saved (startTimerInternal started c p)) = Some 0 \<longleftrightarrow>
     started = (getDuration (c_settings c) (c_mode c) - c_remainingTime c) * 1000"
  by (simp_all add: saveTimerState_def startTimerInternal_def)

text \<open>
  Claim C2. For every persisted snapshot with \<open>isPlaying = true\<close> and a non-null
  \<open>startedAt\<close>, if the whole seconds elapsed since \<open>startedAt\<close> are at least the
  stored remaining time, then loading sets the remaining time to 0 and leaves the
  timer not playing (the playing flag is not touched, and it is false on a cold
  start), while the mode and the count of completed pomodoros are taken from the
  snapshot as they are stored. The persisted \<open>startedAt\<close> is an epoch time stamp
  and as such not the number 0.
\<close>

theorem load_elapsed_snapshot:
  assumes "saved_isPlaying state" and "startedAt state = Some t" and "t \<noteq> 0"
    and "saved_remainingTime state \<le> (now - t) div 1000"
  shows "remainingTime (loadTimerState now s (Some state) p) = 0 \<and>
         isPlaying (loadTimerState now s (Some state) p) = isPlaying p \<and>
         \<not> isPlaying (loadTimerState now s (Some state) (initialPomodoro s)) \<and>
         mode (loadTimerState now s (Some state) p) = saved_mode state \<and>
         completedPomodoros (loadTimerState now s (Some state) p) =
           saved_completedPomodoros state"
  using assms by (simp add: loadTimerState_def truthy_def Let_def initialPomodoro_def)

theorem load_elapsed_snapshot_witness:
  "saved_isPlaying (saveTimerState 1700000003000 (pomodoro firstStart)) \<and>
   startedAt (saveTimerState 1700000003000 (pomodoro firstStart)) = Some 1700000000000 \<and>
   (1700000000000 :: int) \<noteq> 0 \<and>
   saved_remainingTime (saveTimerState 1700000003000 (pomodoro firstStart)) \<le>
     (1700002000000 - 1700000000000) div 1000 \<and>
   remainingTime (loadTimerState 1700002000000 defaultSettings
     (Some (saveTimerState 1700000003000 (pomodoro firstStart)))
     (initialPomodoro defaultSettings)) = 0 \<and>
   \<not> isPlaying (loadTimerState 1700002000000 defaultSettings
     (Some (saveTimerState 1700000003000 (pomodoro firstStart)))
     (initialPomodoro defaultSettings)) \<and>
   mode (loadTimerState 1700002000000 defaultSettings
     (Some (saveTimerState 1700000003000 (pomodoro firstStart)))
     (initialPomodoro defaultSettings)) = Focus \<and>
   completedPomodoros (loadTimerState 1700002000000 defaultSettings
     (Some (saveTimerState 1700000003000 (pomodoro firstStart)))
     (initialPomodoro defaultSettings)) = 0"
proof -
  have p: "pomodoro firstStart =
           (startTimerInternal 1700000000000 (memoRender (initialPomodoro defaultSettings))
              ((initialPomodoro defaultSettings)
                 \<lparr>onPomodoroComplete :=
                    Some \<lparr>cb_workDuration = 25, cb_effectiveCategory = Work,
                          cb_currentTask = None\<rparr>,
                  isLoaded := True\<rparr>))
           \<lparr>notificationIdRef := Some ''notification-1''\<rparr>"
    by (simp add: firstStart_def rerender_def startTimer_def startTimerInternal_def
        registerCallback_def initialApp_def initialPomodoro_def defaultSettings_def
        closureOf_def effectiveCategory_def currentTask_def loadTimerState_def Let_def)
  have h: "saved_isPlaying (saveTimerState 1700000003000 (pomodoro firstStart))"
    "startedAt (saveTimerState 1700000003000 (pomodoro firstStart)) = Some 1700000000000"
    "saved_remainingTime (saveTimerState 1700000003000 (pomodoro firstStart)) = 1500"
    "saved_mode (saveTimerState 1700000003000 (pomodoro firstStart)) = Focus"
    "saved_completedPomodoros (saveTimerState 1700000003000 (pomodoro firstStart)) = 0"
    by (simp_all add: p saveTimerState_def startTimerInternal_def initialPomodoro_def
        defaultSettings_def getDuration_def)
  have q: "\<not> isPlaying (initialPomodoro defaultSettings)"
    by (simp add: initialPomodoro_def)
  show ?thesis
    using load_elapsed_snapshot [OF h(1) h(2), of 1700002000000 defaultSettings
        "initialPomodoro defaultSettings"]
    by (simp add: h q)
qed

text \<open>
  Claim C7. In every snapshot written by \<open>saveTimerState\<close> at most one of
  \<open>startedAt\<close> and \<open>pausedAt\<close> is non-null: \<open>startedAt\<close> is non-null only when the
  snapshot is playing, \<open>pausedAt\<close> only when it is not.
\<close>

theorem snapshot_markers_exclusive:
  "saved_isPlaying (saveTimerState now p) = isPlaying p \<and>
   (startedAt (saveTimerState now p) = None \<or> pausedAt (saveTimerState now p) = None) \<and>
   (startedAt (saveTimerState now p) \<noteq> None \<longrightarrow> saved_isPlaying (saveTimerState now p)) \<and>
   (pausedAt (saveTimerState now p) \<noteq> None \<longrightarrow> \<not> saved_isPlaying (saveTimerState now p))"
  by (simp add: saveTimerState_def)

theorem snapshot_markers_exclusive_witness:
  "startedAt (saveTimerState 7000
      (startTimerInternal 5000 (closureOf (initialApp defaultSettings))
         (initialPomodoro defaultSettings))) \<noteq> None \<and>
   saved_isPlaying (saveTimerState 7000
      (startTimerInternal 5000 (closureOf (initialApp defaultSettings))
         (initialPomodoro defaultSettings))) \<and>
   pausedAt (saveTimerState 7000
      (startTimerInternal 5000 (closureOf (initialApp defaultSettings))
         (initialPomodoro defaultSettings))) = None \<and>
   pausedAt (saveTimerState 7000 (initialPomodoro defaultSettings)) \<noteq> None \<and>
   \<not> saved_isPlaying (saveTimerState 7000 (initialPomodoro defaultSettings)) \<and>
   startedAt (saveTimerState 7000 (initialPomodoro defaultSettings)) = None"
  using snapshot_markers_exclusive [of 7000
      "startTimerInternal 5000 (closureOf (initialApp defaultSettings))
         (initialPomodoro defaultSettings)"]
    snapshot_markers_exclusive [of 7000 "initialPomodoro defaultSettings"]
  by (simp add: saveTimerState_def startTimerInternal_def initialPomodoro_def)

subsection \<open>Pausing\<close>

text \<open>
  Claim C9. Pausing twice in a row leaves the state as pausing once does: the whole
  provider state (playing flag, remaining time, mode, completed pomodoros, ambient
  flag, notification id and the rest) is the same whatever the platform answers to
  the two pause calls, and the whole application state is the same when both calls
  get the same answer or the first one succeeds.
\<close>

theorem pause_idempotent:
  "pauseTimer ok (pauseTimer ok app) = pauseTimer ok app \<and>
   pomodoro (pauseTimer ok2 (pauseTimer ok1 app)) = pomodoro (pauseTimer ok1 app) \<and>
   pauseTimer ok2 (pauseTimer ok1 app) =
     (pauseTimer ok1 app)\<lparr>audio := pauseAmbientSound ok2 (audio (pauseTimer ok1 app))\<rparr> \<and>
   pauseTimer ok2 (pauseTimer True app) = pauseTimer True app"
  by (simp add: pauseTimer_def pauseAmbientSound_def)

subsection \<open>The completion callback\<close>

lemma handleTimerComplete_callback:
  assumes "c_mode c = Focus" and "c_onPomodoroComplete c = Some cb"
  shows "insights (handleTimerComplete now today c app) =
           addSession now
             \<lparr>data_date = today, data_duration = cb_workDuration cb,
              data_category = cb_effectiveCategory cb,
              data_taskId = map_option task_id (cb_currentTask cb),
              data_taskTitle = map_option title (cb_currentTask cb)\<rparr>
             (insights app)"
    and "taskCtx (handleTimerComplete now today c app) =
           (case cb_currentTask cb of
              None \<Rightarrow> taskCtx app
            | Some task \<Rightarrow> incrementPomodoro (task_id task) (taskCtx app))"
  using assms
  by (simp_all add: handleTimerComplete_def invokeCallback_def Let_def split: option.split)

lemma registered_closure:
  assumes "mode (pomodoro app) = Focus"
  shows "c_mode (closureOf (registerCallback app)) = Focus"
    and "c_completedPomodoros (closureOf (registerCallback app)) = completedPomodoros (pomodoro app)"
    and "c_settings (closureOf (registerCallback app)) = settings app"
    and "c_onPomodoroComplete (closureOf (registerCallback app)) =
           Some \<lparr>cb_workDuration = workDuration (timer (settings app)),
                 cb_effectiveCategory = effectiveCategory app,
                 cb_currentTask = currentTask (taskCtx app)\<rparr>"
    and "insights (registerCallback app) = insights app"
    and "taskCtx (registerCallback app) = taskCtx app"
  using assms by (simp_all add: closureOf_def registerCallback_def)

lemma tick_completes:
  assumes "interval (pomodoro app) = Some c" and "remainingTime (pomodoro app) \<le> 1"
  shows "tick now today app =
           handleTimerComplete now today c
             (app\<lparr>pomodoro := (pomodoro app)
                    \<lparr>interval := (if timerRef (pomodoro app) then None else Some c),
                     remainingTime := 0\<rparr>\<rparr>)"
  using assms by (simp add: tick_def)

lemma rerender_keeps:
  "interval (pomodoro (rerender app)) = interval (pomodoro app)"
  "remainingTime (pomodoro (rerender app)) = remainingTime (pomodoro app)"
  "mode (pomodoro (rerender app)) = mode (pomodoro app)"
  "completedPomodoros (pomodoro (rerender app)) = completedPomodoros (pomodoro app)"
  "onPomodoroComplete (pomodoro (rerender app)) = onPomodoroComplete (pomodoro app)"
  "timerRef (pomodoro (rerender app)) = timerRef (pomodoro app)"
  "insights (rerender app) = insights app"
  "taskCtx (rerender app) = taskCtx app"
  "settings (rerender app) = settings app"
  by (simp_all add: rerender_def Let_def)

lemma tick_counts_down:
  assumes "interval (pomodoro app) = Some c" and "1 < remainingTime (pomodoro app)"
  shows "tick now today app =
           app\<lparr>pomodoro := (pomodoro app)\<lparr>remainingTime := remainingTime (pomodoro app) - 1\<rparr>\<rparr>"
  using assms by (simp add: tick_def)

lemma ticks_count_down:
  assumes "interval (pomodoro app) = Some c" and "int n < remainingTime (pomodoro app)"
  shows "interval (pomodoro (ticks n now today app)) = Some c \<and>
         remainingTime (pomodoro (ticks n now today app)) = remainingTime (pomodoro app) - int n \<and>
         mode (pomodoro (ticks n now today app)) = mode (pomodoro app) \<and>
         completedPomodoros (pomodoro (ticks n now today app)) =
           completedPomodoros (pomodoro app) \<and>
         onPomodoroComplete (pomodoro (ticks n now today app)) =
           onPomodoroComplete (pomodoro app) \<and>
         timerRef (pomodoro (ticks n now today app)) = timerRef (pomodoro app) \<and>
         insights (ticks n now today app) = insights app \<and>
         taskCtx (ticks n now today app) = taskCtx app \<and>
         settings (ticks n now today app) = settings app"
  using assms
proof (induction n arbitrary: app)
  case 0
  then show ?case by simp
next
  case (Suc n)
  have r: "1 < remainingTime (pomodoro app)"
    using Suc.prems(2) by simp
  let ?app = "rerender (tick now today app)"
  note t = tick_counts_down [OF Suc.prems(1) r, of now today]
  have i: "interval (pomodoro ?app) = Some c"
    by (simp add: rerender_keeps t Suc.prems(1))
  have m: "int n < remainingTime (pomodoro ?app)"
    using Suc.prems(2) by (simp add: rerender_keeps t)
  from Suc.IH [OF i m] show ?case
    by (simp add: rerender_keeps t)
qed

lemma handleTimerComplete_no_callback:
  assumes "c_onPomodoroComplete c = None"
  shows "insights (handleTimerComplete now today c app) = insights app"
    and "taskCtx (handleTimerComplete now today c app) = taskCtx app"
  using assms by (simp_all add: handleTimerComplete_def Let_def)

lemma completePomodoro_records_session:
  assumes "mode (pomodoro app) = Focus"
  shows "sessions (insights (completePomodoro now today (registerCallback app))) =
           sessions (insights app) @
           [\<lparr>session_id = toString now, date = today,
             duration = workDuration (timer (settings app)),
             session_category =
               (case currentTask (taskCtx app) of
                  Some task \<Rightarrow> category task
                | None \<Rightarrow> selectedCategory (insights app)),
             taskId = map_option task_id (currentTask (taskCtx app)),
             taskTitle = map_option title (currentTask (taskCtx app)),
             session_completedAt = now\<rparr>]"
    and "tasks (taskCtx (completePomodoro now today (registerCallback app))) =
           (case currentTask (taskCtx app) of
              None \<Rightarrow> tasks (taskCtx app)
            | Some task \<Rightarrow>
                map (\<lambda>u. if task_id u \<noteq> task_id task then u
                         else u\<lparr>pomodorosCompleted := pomodorosCompleted u + 1\<rparr>)
                  (tasks (taskCtx app)))"
proof -
  note reg = registered_closure [OF assms]
  show "sessions (insights (completePomodoro now today (registerCallback app))) =
           sessions (insights app) @
           [\<lparr>session_id = toString now, date = today,
             duration = workDuration (timer (settings app)),
             session_category =
               (case currentTask (taskCtx app) of
                  Some task \<Rightarrow> category task
                | None \<Rightarrow> selectedCategory (insights app)),
             taskId = map_option task_id (currentTask (taskCtx app)),
             taskTitle = map_option title (currentTask (taskCtx app)),
             session_completedAt = now\<rparr>]"
    by (simp add: completePomodoro_def handleTimerComplete_callback [OF reg(1) reg(4)]
        reg(5) addSession_def effectiveCategory_def)
  show "tasks (taskCtx (completePomodoro now today (registerCallback app))) =
           (case currentTask (taskCtx app) of
              None \<Rightarrow> tasks (taskCtx app)
            | Some task \<Rightarrow>
                map (\<lambda>u. if task_id u \<noteq> task_id task then u
                         else u\<lparr>pomodorosCompleted := pomodorosCompleted u + 1\<rparr>)
                  (tasks (taskCtx app)))"
    by (simp add: completePomodoro_def handleTimerComplete_callback [OF reg(1) reg(4)]
        reg(6) incrementPomodoro_def split: option.split)
qed

lemma firstStart_facts:
  "interval (pomodoro firstStart) =
     Some \<lparr>c_mode = Focus, c_remainingTime = 1500, c_completedPomodoros = 0,
           c_settings = defaultSettings, c_onPomodoroComplete = None\<rparr>"
  "remainingTime (pomodoro firstStart) = 1500"
  "mode (pomodoro firstStart) = Focus"
  "completedPomodoros (pomodoro firstStart) = 0"
  "onPomodoroComplete (pomodoro firstStart) =
     Some \<lparr>cb_workDuration = 25, cb_effectiveCategory = Work, cb_currentTask = None\<rparr>"
  "timerRef (pomodoro firstStart)"
  "sessions (insights firstStart) = []"
  "selectedCategory (insights firstStart) = Work"
  "currentTask (taskCtx firstStart) = None"
  "settings firstStart = defaultSettings"
  by (simp_all add: firstStart_def rerender_def startTimer_def startTimerInternal_def
      registerCallback_def initialApp_def initialPomodoro_def defaultSettings_def
      closureOf_def effectiveCategory_def currentTask_def loadTimerState_def Let_def)

text \<open>
  Claim C3. Completing a focus interval with the completion callback registered
  is to append exactly one session record (work duration, category and id and
  title of the current task) and to raise the completed count of a selected task;
  from one second remaining, one tick is to lead to the short break with one
  completed pomodoro and such a record. \<open>completePomodoro\<close> does so. The interval,
  however, calls the \<open>handleTimerComplete\<close> of the render that created the memoised
  \<open>startTimerInternal\<close>: on the first use after installation the callback is
  registered and the timer has counted down to one second, and the completing tick
  reaches the short break with one completed pomodoro but records no session,
  where \<open>completePomodoro\<close> on the same state records it.
\<close>

theorem stale_interval_skips_callback:
  "onPomodoroComplete (pomodoro (ticks 1499 1700001500000 ''2023-11-14'' firstStart)) =
     Some \<lparr>cb_workDuration = 25, cb_effectiveCategory = Work, cb_currentTask = None\<rparr> \<and>
   mode (pomodoro (ticks 1499 1700001500000 ''2023-11-14'' firstStart)) = Focus \<and>
   remainingTime (pomodoro (ticks 1499 1700001500000 ''2023-11-14'' firstStart)) = 1 \<and>
   completedPomodoros (pomodoro (ticks 1499 1700001500000 ''2023-11-14'' firstStart)) = 0 \<and>
   pomodorosUntilLongBreak
     (timer (settings (ticks 1499 1700001500000 ''2023-11-14'' firstStart))) = 4 \<and>
   mode (pomodoro (tick 1700001500000 ''2023-11-14''
     (ticks 1499 1700001500000 ''2023-11-14'' firstStart))) = ShortBreak \<and>
   completedPomodoros (pomodoro (tick 1700001500000 ''2023-11-14''
     (ticks 1499 1700001500000 ''2023-11-14'' firstStart))) = 1 \<and>
   sessions (insights (tick 1700001500000 ''2023-11-14''
     (ticks 1499 1700001500000 ''2023-11-14'' firstStart))) = [] \<and>
   sessions (insights (completePomodoro 1700001500000 ''2023-11-14''
     (ticks 1499 1700001500000 ''2023-11-14'' firstStart))) =
     [\<lparr>session_id = toString 1700001500000, date = ''2023-11-14'', duration = 25,
       session_category = Work, taskId = None, taskTitle = None,
       session_completedAt = 1700001500000\<rparr>]"
proof -
  let ?c = "\<lparr>c_mode = Focus, c_remainingTime = 1500, c_completedPomodoros = 0,
             c_settings = defaultSettings, c_onPomodoroComplete = None\<rparr>"
  let ?X = "ticks 1499 1700001500000 ''2023-11-14'' firstStart"
  have n: "int 1499 < remainingTime (pomodoro firstStart)"
    by (simp add: firstStart_facts)
  note x = ticks_count_down [OF firstStart_facts(1) n, of 1700001500000 "''2023-11-14''"]
  have xi: "interval (pomodoro ?X) = Some ?c" and xr: "remainingTime (pomodoro ?X) = 1"
    and xm: "mode (pomodoro ?X) = Focus" and xc: "completedPomodoros (pomodoro ?X) = 0"
    and xo: "onPomodoroComplete (pomodoro ?X) =
               Some \<lparr>cb_workDuration = 25, cb_effectiveCategory = Work, cb_currentTask = None\<rparr>"
    and xs: "insights ?X = insights firstStart" and xt: "settings ?X = defaultSettings"
    using x by (simp_all add: firstStart_facts)
  have le: "remainingTime (pomodoro ?X) \<le> 1"
    by (simp add: xr)
  note t = tick_completes [OF xi le, of 1700001500000 "''2023-11-14''"]
  have f: "c_mode ?c = Focus" and o: "c_onPomodoroComplete ?c = None"
    by simp_all
  have k: "pomodorosUntilLongBreak (timer defaultSettings) = 4"
    by (simp add: defaultSettings_def)
  have stale: "mode (pomodoro (tick 1700001500000 ''2023-11-14'' ?X)) = ShortBreak \<and>
               completedPomodoros (pomodoro (tick 1700001500000 ''2023-11-14'' ?X)) = 1 \<and>
               sessions (insights (tick 1700001500000 ''2023-11-14'' ?X)) = []"
    by (simp add: t handleTimerComplete_focus [OF f] handleTimerComplete_no_callback [OF o]
        xs firstStart_facts k jsRem_def)
  have fresh: "sessions (insights (completePomodoro 1700001500000 ''2023-11-14'' ?X)) =
     [\<lparr>session_id = toString 1700001500000, date = ''2023-11-14'', duration = 25,
       session_category = Work, taskId = None, taskTitle = None,
       session_completedAt = 1700001500000\<rparr>]"
  proof -
    have cm: "c_mode (closureOf ?X) = Focus"
      and co: "c_onPomodoroComplete (closureOf ?X) =
                 Some \<lparr>cb_workDuration = 25, cb_effectiveCategory = Work, cb_currentTask = None\<rparr>"
      by (simp_all add: closureOf_def xm xo)
    show ?thesis
      by (simp add: completePomodoro_def handleTimerComplete_callback [OF cm co] addSession_def
          xs firstStart_facts)
  qed
  show ?thesis
    using stale fresh by (simp add: xo xm xr xc xt k)
qed

subsection \<open>Tasks: archiving and restoring\<close>

lemma find_distinct_id:
  "distinct (map f xs) \<Longrightarrow> x \<in> set xs \<Longrightarrow> find (\<lambda>y. f y = f x) xs = Some x"
  by (induction xs) (auto simp: image_iff)

lemma filter_eq_distinct_id:
  "distinct (map f xs) \<Longrightarrow> x \<in> set xs \<Longrightarrow> filter (\<lambda>y. f y = f x) xs = [x]"
  by (induction xs) (auto simp: image_iff filter_empty_conv)

lemma find_first_of_filter:
  "find P xs = Some u \<Longrightarrow> \<exists>rest. filter P xs = u # rest"
  by (induction xs) (auto split: if_splits)

lemma find_None_filter: "find P xs = None \<longleftrightarrow> filter P xs = []"
  by (induction xs) auto

text \<open>What one \<open>completeTask\<close> call does to the two lists.\<close>

lemma completeTask_lists:
  "tasks (completeTask now captured j st) =
     (case find (\<lambda>task. task_id task = j) (tasks st) of
        None \<Rightarrow> tasks st | Some u \<Rightarrow> filter (\<lambda>task. task_id task \<noteq> j) (tasks st))"
  "archivedTasks (completeTask now captured j st) =
     (case find (\<lambda>task. task_id task = j) (tasks st) of
        None \<Rightarrow> archivedTasks st
      | Some u \<Rightarrow> u\<lparr>completed := True, completedAt := Some now\<rparr> # archivedTasks st)"
  by (simp_all add: completeTask_def Let_def split: option.split)

lemma completeTask_other:
  assumes "j \<noteq> i"
  shows "filter (\<lambda>u. task_id u = i) (tasks (completeTask now captured j st)) =
           filter (\<lambda>u. task_id u = i) (tasks st)"
    and "filter (\<lambda>u. task_id u = i) (archivedTasks (completeTask now captured j st)) =
           filter (\<lambda>u. task_id u = i) (archivedTasks st)"
proof -
  have h: "filter (\<lambda>x. task_id x \<noteq> j \<and> task_id x = i) xs =
        filter (\<lambda>u. task_id u = i) xs" for xs
    using assms by (induction xs) auto
  show "filter (\<lambda>u. task_id u = i) (tasks (completeTask now captured j st)) =
           filter (\<lambda>u. task_id u = i) (tasks st)"
    by (simp add: completeTask_lists h split: option.split)
  show "filter (\<lambda>u. task_id u = i) (archivedTasks (completeTask now captured j st)) =
           filter (\<lambda>u. task_id u = i) (archivedTasks st)"
    using assms by (auto simp: completeTask_lists find_Some_iff split: option.split)
qed

lemma completeTask_same_active:
  assumes "filter (\<lambda>u. task_id u = i) (tasks st) = [t1]"
  shows "filter (\<lambda>u. task_id u = i) (tasks (completeTask now captured i st)) = []"
    and "filter (\<lambda>u. task_id u = i) (archivedTasks (completeTask now captured i st)) =
           t1\<lparr>completed := True, completedAt := Some now\<rparr> #
           filter (\<lambda>u. task_id u = i) (archivedTasks st)"
proof -
  obtain u where f: "find (\<lambda>task. task_id task = i) (tasks st) = Some u"
    using assms by (cases "find (\<lambda>task. task_id task = i) (tasks st)")
      (simp_all add: find_None_filter)
  from find_first_of_filter [OF f] assms have u: "u = t1" by auto
  have i: "task_id t1 = i"
    using f u by (auto simp: find_Some_iff)
  show "filter (\<lambda>u. task_id u = i) (tasks (completeTask now captured i st)) = []"
    by (simp add: completeTask_lists f filter_empty_conv)
  show "filter (\<lambda>u. task_id u = i) (archivedTasks (completeTask now captured i st)) =
           t1\<lparr>completed := True, completedAt := Some now\<rparr> #
           filter (\<lambda>u. task_id u = i) (archivedTasks st)"
    by (simp add: completeTask_lists f u i)
qed

lemma completeTask_same_gone:
  assumes "filter (\<lambda>u. task_id u = i) (tasks st) = []"
  shows "tasks (completeTask now captured i st) = tasks st"
    and "archivedTasks (completeTask now captured i st) = archivedTasks st"
  using assms by (simp_all add: completeTask_lists find_None_filter [symmetric])


lemma filter_neq_distinct_id:
  "distinct (map f xs) \<Longrightarrow> x \<in> set xs \<Longrightarrow> filter (\<lambda>y. f y \<noteq> f x) xs = remove1 x xs"
proof (induction xs)
  case Nil
  then show ?case by simp
next
  case (Cons a xs)
  show ?case
  proof (cases "x = a")
    case True
    have "f a \<notin> f ` set xs"
      using Cons.prems(1) by simp
    then have "\<forall>y \<in> set xs. f y \<noteq> f a"
      by (metis imageI)
    then have "filter (\<lambda>y. f y \<noteq> f a) xs = xs"
      by (simp add: filter_id_conv)
    then show ?thesis using True by simp
  next
    case False
    then have "x \<in> set xs" using Cons.prems(2) by simp
    moreover have "f a \<notin> f ` set xs"
      using Cons.prems(1) by simp
    ultimately have "f a \<noteq> f x"
      by (metis imageI)
    then show ?thesis
      using Cons.IH Cons.prems(1) \<open>x \<in> set xs\<close> False by simp
  qed
qed

lemma completeTask_inv:
  assumes "(filter (\<lambda>u. task_id u = i) (tasks st) = [t1] \<and>
            filter (\<lambda>u. task_id u = i) (archivedTasks st) = []) \<or>
           (filter (\<lambda>u. task_id u = i) (tasks st) = [] \<and>
            filter (\<lambda>u. task_id u = i) (archivedTasks st) =
              [t1\<lparr>completed := True, completedAt := Some now\<rparr>])"
  shows "(filter (\<lambda>u. task_id u = i) (tasks (completeTask now captured j st)) = [t1] \<and>
          filter (\<lambda>u. task_id u = i) (archivedTasks (completeTask now captured j st)) = []) \<or>
         (filter (\<lambda>u. task_id u = i) (tasks (completeTask now captured j st)) = [] \<and>
          filter (\<lambda>u. task_id u = i) (archivedTasks (completeTask now captured j st)) =
            [t1\<lparr>completed := True, completedAt := Some now\<rparr>])"
proof (cases "j = i")
  case False
  then show ?thesis using assms by (simp add: completeTask_other)
next
  case True
  from assms show ?thesis
  proof
    assume "filter (\<lambda>u. task_id u = i) (tasks st) = [t1] \<and>
            filter (\<lambda>u. task_id u = i) (archivedTasks st) = []"
    then show ?thesis using True by (simp add: completeTask_same_active)
  next
    assume "filter (\<lambda>u. task_id u = i) (tasks st) = [] \<and>
            filter (\<lambda>u. task_id u = i) (archivedTasks st) =
              [t1\<lparr>completed := True, completedAt := Some now\<rparr>]"
    then show ?thesis using True by (simp add: completeTask_same_gone)
  qed
qed

lemma completeTask_done:
  assumes "(filter (\<lambda>u. task_id u = i) (tasks st) = [t1] \<and>
            filter (\<lambda>u. task_id u = i) (archivedTasks st) = []) \<or>
           (filter (\<lambda>u. task_id u = i) (tasks st) = [] \<and>
            filter (\<lambda>u. task_id u = i) (archivedTasks st) =
              [t1\<lparr>completed := True, completedAt := Some now\<rparr>])"
  shows "filter (\<lambda>u. task_id u = i) (tasks (completeTask now captured i st)) = [] \<and>
         filter (\<lambda>u. task_id u = i) (archivedTasks (completeTask now captured i st)) =
           [t1\<lparr>completed := True, completedAt := Some now\<rparr>]"
  using assms
proof
  assume "filter (\<lambda>u. task_id u = i) (tasks st) = [t1] \<and>
          filter (\<lambda>u. task_id u = i) (archivedTasks st) = []"
  then show ?thesis by (simp add: completeTask_same_active)
next
  assume "filter (\<lambda>u. task_id u = i) (tasks st) = [] \<and>
          filter (\<lambda>u. task_id u = i) (archivedTasks st) =
            [t1\<lparr>completed := True, completedAt := Some now\<rparr>]"
  then show ?thesis by (simp add: completeTask_same_gone)
qed

lemma fire_timeouts_inv:
  assumes "(filter (\<lambda>u. task_id u = i) (tasks st) = [t1] \<and>
            filter (\<lambda>u. task_id u = i) (archivedTasks st) = []) \<or>
           (filter (\<lambda>u. task_id u = i) (tasks st) = [] \<and>
            filter (\<lambda>u. task_id u = i) (archivedTasks st) =
              [t1\<lparr>completed := True, completedAt := Some now\<rparr>])"
  shows "(filter (\<lambda>u. task_id u = i)
            (tasks (foldl (\<lambda>acc (j, captured). completeTask now captured j acc) st q)) = [t1] \<and>
          filter (\<lambda>u. task_id u = i)
            (archivedTasks (foldl (\<lambda>acc (j, captured). completeTask now captured j acc) st q)) = []) \<or>
         (filter (\<lambda>u. task_id u = i)
            (tasks (foldl (\<lambda>acc (j, captured). completeTask now captured j acc) st q)) = [] \<and>
          filter (\<lambda>u. task_id u = i)
            (archivedTasks (foldl (\<lambda>acc (j, captured). completeTask now captured j acc) st q)) =
            [t1\<lparr>completed := True, completedAt := Some now\<rparr>])"
  using assms
proof (induction q arbitrary: st)
  case Nil
  then show ?case by simp
next
  case (Cons e q)
  obtain j captured where e: "e = (j, captured)" by (cases e)
  show ?case
    using Cons.IH [OF completeTask_inv [OF Cons.prems, of captured j]] by (simp add: e)
qed

lemma incrementPomodoro_facts:
  assumes "t \<in> set (tasks st)" and "distinct (map task_id (tasks st))"
    and "pomodoroEstimate t \<le> pomodorosCompleted t + 1"
  shows "filter (\<lambda>u. task_id u = task_id t) (tasks (incrementPomodoro (task_id t) st)) =
           [t\<lparr>pomodorosCompleted := pomodorosCompleted t + 1\<rparr>]"
    and "completeTimeouts (incrementPomodoro (task_id t) st) =
           completeTimeouts st @ [(task_id t, currentTaskId st)]"
    and "archivedTasks (incrementPomodoro (task_id t) st) = archivedTasks st"
    and "filter (\<lambda>u. task_id u \<noteq> task_id t) (tasks (incrementPomodoro (task_id t) st)) =
           remove1 t (tasks st)"
proof -
  let ?g = "\<lambda>task. if task_id task \<noteq> task_id t then task
                     else task\<lparr>pomodorosCompleted := pomodorosCompleted task + 1\<rparr>"
  have one: "filter (\<lambda>u. task_id u = task_id t) (tasks st) = [t]"
    using assms(1,2) by (simp add: filter_eq_distinct_id)
  have m: "filter (\<lambda>u. task_id u = task_id t) (map ?g xs) =
           map ?g (filter (\<lambda>u. task_id u = task_id t) xs)" for xs
    by (induction xs) auto
  show "filter (\<lambda>u. task_id u = task_id t) (tasks (incrementPomodoro (task_id t) st)) =
           [t\<lparr>pomodorosCompleted := pomodorosCompleted t + 1\<rparr>]"
    by (simp add: incrementPomodoro_def m one del: filter_map)
  have "filter (\<lambda>task. task_id task = task_id t \<and>
                        pomodoroEstimate task \<le> pomodorosCompleted task + 1) (tasks st) =
        filter (\<lambda>task. pomodoroEstimate task \<le> pomodorosCompleted task + 1)
          (filter (\<lambda>u. task_id u = task_id t) (tasks st))"
    by (simp add: conj_commute)
  also have "\<dots> = [t]"
    using assms(3) by (simp add: one)
  finally show "completeTimeouts (incrementPomodoro (task_id t) st) =
           completeTimeouts st @ [(task_id t, currentTaskId st)]"
    by (simp add: incrementPomodoro_def)
  show "archivedTasks (incrementPomodoro (task_id t) st) = archivedTasks st"
    by (simp add: incrementPomodoro_def)
  have n: "filter (\<lambda>u. task_id u \<noteq> task_id t) (map ?g xs) =
           filter (\<lambda>u. task_id u \<noteq> task_id t) xs" for xs
    by (induction xs) auto
  show "filter (\<lambda>u. task_id u \<noteq> task_id t) (tasks (incrementPomodoro (task_id t) st)) =
           remove1 t (tasks st)"
    using assms(1,2) by (simp add: incrementPomodoro_def n filter_neq_distinct_id del: filter_map)
qed


lemma find_of_filter_single: "filter P xs = [u] \<Longrightarrow> find P xs = Some u"
  using find_first_of_filter [of P xs] find_None_filter [of P xs]
  by (cases "find P xs") auto

text \<open>
  Claim C4. When \<open>incrementPomodoro\<close> raises the completed count of an active task
  to its estimate or beyond, then once the deferred \<open>completeTask\<close> calls have run
  the task is no longer in the active list and is in the archived list exactly
  once, completed, with \<open>completedAt\<close> set and the raised count unchanged by the
  move. Task ids identify tasks: those of the active list are distinct and that of
  the task is not yet in the archive.
\<close>

theorem increment_archives_once:
  assumes "t \<in> set (tasks st)" and "distinct (map task_id (tasks st))"
    and "task_id t \<notin> task_id ` set (archivedTasks st)"
    and "pomodoroEstimate t \<le> pomodorosCompleted t + 1"
  shows "filter (\<lambda>u. task_id u = task_id t)
           (tasks (flushTimeouts now (incrementPomodoro (task_id t) st))) = [] \<and>
         filter (\<lambda>u. task_id u = task_id t)
           (archivedTasks (flushTimeouts now (incrementPomodoro (task_id t) st))) =
           [t\<lparr>pomodorosCompleted := pomodorosCompleted t + 1, completed := True,
              completedAt := Some now\<rparr>] \<and>
         (completeTimeouts st = [] \<longrightarrow>
            tasks (flushTimeouts now (incrementPomodoro (task_id t) st)) = remove1 t (tasks st) \<and>
            archivedTasks (flushTimeouts now (incrementPomodoro (task_id t) st)) =
              t\<lparr>pomodorosCompleted := pomodorosCompleted t + 1, completed := True,
                completedAt := Some now\<rparr> # archivedTasks st)"
proof -
  let ?i = "task_id t"
  let ?t1 = "t\<lparr>pomodorosCompleted := pomodorosCompleted t + 1\<rparr>"
  let ?st1 = "incrementPomodoro ?i st"
  let ?st0 = "?st1\<lparr>completeTimeouts := []\<rparr>"
  let ?F = "\<lambda>acc (j, captured). completeTask now captured j acc"
  note inc = incrementPomodoro_facts [OF assms(1,2,4)]
  have flush: "flushTimeouts now ?st1 =
               completeTask now (currentTaskId st) ?i (foldl ?F ?st0 (completeTimeouts st))"
    by (simp add: flushTimeouts_def inc(2))
  have none: "filter (\<lambda>u. task_id u = ?i) (archivedTasks st) = []"
    using assms(3) by (simp add: filter_empty_conv) (metis imageI)
  have start: "(filter (\<lambda>u. task_id u = ?i) (tasks ?st0) = [?t1] \<and>
                filter (\<lambda>u. task_id u = ?i) (archivedTasks ?st0) = []) \<or>
               (filter (\<lambda>u. task_id u = ?i) (tasks ?st0) = [] \<and>
                filter (\<lambda>u. task_id u = ?i) (archivedTasks ?st0) =
                  [?t1\<lparr>completed := True, completedAt := Some now\<rparr>])"
    using inc(1) by (simp add: inc(3) none)
  have general:
    "filter (\<lambda>u. task_id u = ?i) (tasks (flushTimeouts now ?st1)) = [] \<and>
     filter (\<lambda>u. task_id u = ?i) (archivedTasks (flushTimeouts now ?st1)) =
       [?t1\<lparr>completed := True, completedAt := Some now\<rparr>]"
    unfolding flush
    by (rule completeTask_done [OF fire_timeouts_inv [OF start]])
  have quiet: "tasks (flushTimeouts now ?st1) = remove1 t (tasks st) \<and>
               archivedTasks (flushTimeouts now ?st1) =
                 ?t1\<lparr>completed := True, completedAt := Some now\<rparr> # archivedTasks st"
    if "completeTimeouts st = []"
  proof -
    have f: "find (\<lambda>task. task_id task = ?i) (tasks ?st0) = Some ?t1"
      using inc(1) by (simp add: find_of_filter_single)
    show ?thesis
      using inc(4) f by (simp add: flush that completeTask_lists inc(3))
  qed
  show ?thesis
    using general quiet by simp
qed

theorem increment_archives_once_witness:
  "sampleTask \<in> set (tasks sampleTasks) \<and> distinct (map task_id (tasks sampleTasks)) \<and>
   task_id sampleTask \<notin> task_id ` set (archivedTasks sampleTasks) \<and>
   pomodoroEstimate sampleTask \<le> pomodorosCompleted sampleTask + 1 \<and>
   completeTimeouts sampleTasks = [] \<and>
   tasks (flushTimeouts 1700000900000 (incrementPomodoro (task_id sampleTask) sampleTasks)) =
     [otherTask] \<and>
   archivedTasks
     (flushTimeouts 1700000900000 (incrementPomodoro (task_id sampleTask) sampleTasks)) =
     [sampleTask\<lparr>pomodorosCompleted := 2, completed := True,
                  completedAt := Some 1700000900000\<rparr>]"
proof -
  have h: "sampleTask \<in> set (tasks sampleTasks)" "distinct (map task_id (tasks sampleTasks))"
    "task_id sampleTask \<notin> task_id ` set (archivedTasks sampleTasks)"
    "pomodoroEstimate sampleTask \<le> pomodorosCompleted sampleTask + 1"
    by (simp_all add: sampleTasks_def sampleTask_def otherTask_def)
  have q: "completeTimeouts sampleTasks = []" "archivedTasks sampleTasks = []"
    "remove1 sampleTask (tasks sampleTasks) = [otherTask]"
    "pomodorosCompleted sampleTask + 1 = 2"
    by (simp_all add: sampleTasks_def sampleTask_def)
  show ?thesis
    using increment_archives_once [OF h, of 1700000900000] h by (simp add: q)
qed

text \<open>
  Claim C8. Restoring an archived task removes it from the archived list and
  appends it to the end of the active list with the completed count 0, not
  completed and \<open>completedAt\<close> cleared (and its order set to the end); every other
  task of both lists stays as it is. Task ids identify the archived tasks.
\<close>

theorem restore_task:
  assumes "t \<in> set (archivedTasks st)" and "distinct (map task_id (archivedTasks st))"
  shows "tasks (restoreTask (task_id t) st) =
           tasks st @ [t\<lparr>completed := False, completedAt := None, pomodorosCompleted := 0,
                          task_order := int (length (tasks st))\<rparr>] \<and>
         archivedTasks (restoreTask (task_id t) st) = remove1 t (archivedTasks st) \<and>
         task_id t \<notin> task_id ` set (archivedTasks (restoreTask (task_id t) st)) \<and>
         set (archivedTasks (restoreTask (task_id t) st)) = set (archivedTasks st) - {t} \<and>
         currentTaskId (restoreTask (task_id t) st) = currentTaskId st \<and>
         completeTimeouts (restoreTask (task_id t) st) = completeTimeouts st"
proof -
  have f: "find (\<lambda>task. task_id task = task_id t) (archivedTasks st) = Some t"
    using assms by (simp add: find_distinct_id)
  have r: "filter (\<lambda>task. task_id task \<noteq> task_id t) (archivedTasks st) =
           remove1 t (archivedTasks st)"
    using assms by (simp add: filter_neq_distinct_id)
  have d: "distinct (archivedTasks st)"
    using assms(2) by (rule distinct_map [THEN iffD1, THEN conjunct1])
  have n: "task_id t \<notin> task_id ` set (filter (\<lambda>task. task_id task \<noteq> task_id t) (archivedTasks st))"
    by auto
  have s: "set (remove1 t (archivedTasks st)) = set (archivedTasks st) - {t}"
    using d by simp
  show ?thesis
    using n s by (simp add: restoreTask_def f Let_def r)
qed

theorem restore_task_witness:
  "sampleTask\<lparr>pomodorosCompleted := 2, completed := True, completedAt := Some 1700000900000\<rparr>
     \<in> set (archivedTasks archivedSample) \<and>
   distinct (map task_id (archivedTasks archivedSample)) \<and>
   tasks (restoreTask (task_id sampleTask) archivedSample) =
     [otherTask, sampleTask\<lparr>pomodorosCompleted := 0, task_order := 1\<rparr>] \<and>
   archivedTasks (restoreTask (task_id sampleTask) archivedSample) = []"
proof -
  let ?t = "sampleTask\<lparr>pomodorosCompleted := 2, completed := True,
                        completedAt := Some 1700000900000\<rparr>"
  have h: "?t \<in> set (archivedTasks archivedSample)"
    "distinct (map task_id (archivedTasks archivedSample))"
    by (simp_all add: archivedSample_def)
  have e: "?t\<lparr>completed := False, completedAt := None, pomodorosCompleted := 0,
               task_order := int (length (tasks archivedSample))\<rparr> =
           sampleTask\<lparr>pomodorosCompleted := 0, task_order := 1\<rparr>"
    by (simp add: archivedSample_def sampleTask_def)
  have q: "tasks archivedSample = [otherTask]" "archivedTasks archivedSample = [?t]"
    by (simp_all add: archivedSample_def)
  show ?thesis
    using restore_task [OF h] h e by (simp add: q)
qed

subsection \<open>Streaks\<close>

lemma roundDiv_multiple: "0 < m \<Longrightarrow> roundDiv (k * m) m = k"
proof -
  assume m: "0 < m"
  have "2 * (k * m) + m = m * (2 * k + 1)" by (simp add: algebra_simps)
  moreover have "2 * m = m * 2" by simp
  ultimately have "roundDiv (k * m) m = (m * (2 * k + 1)) div (m * 2)"
    by (simp only: roundDiv_def)
  also have "\<dots> = (2 * k + 1) div 2"
    using m by simp
  also have "\<dots> = k" by simp
  finally show ?thesis .
qed

lemma dayDiff_one: "dayDiff dayNumber p c = Some 1 \<longleftrightarrow> oneDayGap dayNumber p c"
proof (cases "dayNumber p")
  case None
  then show ?thesis by (simp add: dayDiff_def getTime_def oneDayGap_def)
next
  case (Some a)
  show ?thesis
  proof (cases "dayNumber c")
    case None
    then show ?thesis by (simp add: dayDiff_def getTime_def oneDayGap_def Some)
  next
    case (Some b)
    have "a * 86400000 - b * 86400000 = (a - b) * 86400000" by (simp add: algebra_simps)
    then have "roundDiv (a * 86400000 - b * 86400000) 86400000 = a - b"
      using roundDiv_multiple [of 86400000 "a - b"] by simp
    then show ?thesis
      using Some \<open>dayNumber p = Some a\<close> by (simp add: dayDiff_def getTime_def oneDayGap_def)
  qed
qed

lemma spec_runs_nonempty: "spec_runs dayNumber (d # ds) \<noteq> []"
  by (induction ds arbitrary: d) (auto split: list.split)

lemma spec_runs_Cons:
  "spec_runs dayNumber (d # e # ds) =
     (if oneDayGap dayNumber d e
      then (d # hd (spec_runs dayNumber (e # ds))) # tl (spec_runs dayNumber (e # ds))
      else [d] # spec_runs dayNumber (e # ds))"
  using spec_runs_nonempty [of dayNumber e ds] by (simp split: list.split)

lemma maxRun_simps:
  "maxRun [] = 0" "maxRun (r # rs) = max (int (length r)) (maxRun rs)"
  by (simp_all add: maxRun_def)

lemma maxRun_nonneg: "0 \<le> maxRun rs"
  by (induction rs) (auto simp: maxRun_simps)

lemma bestLoop_runs:
  assumes "0 \<le> t"
  shows "(case bestLoop dayNumber (Some p) ds (b, t) of (b', t') \<Rightarrow> max b' t') =
         max b (max (t + int (length (hd (spec_runs dayNumber (p # ds)))) - 1)
                    (maxRun (tl (spec_runs dayNumber (p # ds)))))"
  using assms
proof (induction ds arbitrary: p b t)
  case Nil
  then show ?case by (simp add: maxRun_simps)
next
  case (Cons c ds)
  show ?case
  proof (cases "oneDayGap dayNumber p c")
    case True
    have "0 \<le> t + 1" using Cons.prems by simp
    from Cons.IH [OF this, of c b] True show ?thesis
      by (simp add: dayDiff_one spec_runs_Cons del: spec_runs.simps)
  next
    case False
    have r: "spec_runs dayNumber (c # ds) =
             hd (spec_runs dayNumber (c # ds)) # tl (spec_runs dayNumber (c # ds))"
      using spec_runs_nonempty [of dayNumber c ds] by simp
    have m: "maxRun (spec_runs dayNumber (c # ds)) =
             max (int (length (hd (spec_runs dayNumber (c # ds)))))
                 (maxRun (tl (spec_runs dayNumber (c # ds))))"
      by (subst r) (simp add: maxRun_simps)
    from Cons.IH [of 1 c "max b t"] False Cons.prems show ?thesis
      by (simp add: dayDiff_one spec_runs_Cons m max.assoc maxRun_simps del: spec_runs.simps)
  qed
qed

lemma currentLoop_runs:
  "currentLoop dayNumber p ds t = t + int (length (hd (spec_runs dayNumber (p # ds)))) - 1"
proof (induction ds arbitrary: p t)
  case Nil
  then show ?case by simp
next
  case (Cons c ds)
  then show ?case
    by (simp add: dayDiff_one spec_runs_Cons del: spec_runs.simps)
qed

lemma uniq_foldl:
  "set (foldl (\<lambda>seen x. if x \<in> set seen then seen else seen @ [x]) acc xs) =
     set acc \<union> set xs \<and>
   (distinct acc \<longrightarrow>
      distinct (foldl (\<lambda>seen x. if x \<in> set seen then seen else seen @ [x]) acc xs))"
  by (induction xs arbitrary: acc) auto

lemma set_uniq: "set (uniq xs) = set xs" and distinct_uniq: "distinct (uniq xs)"
  using uniq_foldl [of "[]" xs] by (simp_all add: uniq_def)

lemma sort_uniq: "sort (uniq xs) = sort (remdups xs)"
  by (rule sorted_distinct_set_unique) (simp_all add: set_uniq distinct_uniq)

lemma uniqueDates_spec: "rev (sort (uniq (map date ss))) = spec_dates ss"
  by (simp add: spec_dates_def sort_uniq)

lemma spec_bestStreak_Cons:
  "spec_bestStreak dayNumber (d # ds) =
     max (int (length (hd (spec_runs dayNumber (d # ds)))))
         (maxRun (tl (spec_runs dayNumber (d # ds))))"
proof -
  have r: "spec_runs dayNumber (d # ds) =
           hd (spec_runs dayNumber (d # ds)) # tl (spec_runs dayNumber (d # ds))"
    using spec_runs_nonempty [of dayNumber d ds] by simp
  have "spec_bestStreak dayNumber (d # ds) = maxRun (spec_runs dayNumber (d # ds))"
    by (simp add: spec_bestStreak_def)
  also have "\<dots> = max (int (length (hd (spec_runs dayNumber (d # ds)))))
                       (maxRun (tl (spec_runs dayNumber (d # ds))))"
    by (subst r) (simp add: maxRun_simps)
  finally show ?thesis .
qed

lemma calculateStreaks_Cons:
  assumes "rev (sort (uniq (map date ss))) = first # rest"
  shows "calculateStreaks dayNumber today yesterday ss =
           \<lparr>current =
              (if first = today \<or> first = yesterday then currentLoop dayNumber first rest 1
               else 0),
            best = (case bestLoop dayNumber (Some first) rest (0, 1) of (b, t) \<Rightarrow> max b t)\<rparr>"
proof -
  have "ss \<noteq> []" using assms by (auto simp: uniq_def)
  then show ?thesis
    by (auto simp: calculateStreaks_def assms Let_def split: prod.split)
qed

lemma calculateStreaks_runs:
  "calculateStreaks dayNumber today yesterday ss =
     \<lparr>current = spec_currentStreak dayNumber today yesterday (spec_dates ss),
      best = spec_bestStreak dayNumber (spec_dates ss)\<rparr>"
proof (cases "spec_dates ss")
  case Nil
  then show ?thesis
    by (simp add: calculateStreaks_def uniqueDates_spec spec_currentStreak_def
        spec_bestStreak_def spec_active_def maxRun_simps)
next
  case (Cons first rest)
  have hd_run: "spec_runs dayNumber (first # rest) =
                hd (spec_runs dayNumber (first # rest)) # tl (spec_runs dayNumber (first # rest))"
    using spec_runs_nonempty [of dayNumber first rest] by simp
  have cur: "(case spec_runs dayNumber (first # rest) of [] \<Rightarrow> 0 | r # _ \<Rightarrow> int (length r)) =
             int (length (hd (spec_runs dayNumber (first # rest))))"
    by (subst hd_run) simp
  have b: "(case bestLoop dayNumber (Some first) rest (0, 1) of (b', t') \<Rightarrow> max b' t') =
           spec_bestStreak dayNumber (first # rest)"
    using bestLoop_runs [of 1 dayNumber first rest 0] maxRun_nonneg
    by (simp add: spec_bestStreak_Cons max.absorb2 del: spec_runs.simps)
  have u: "rev (sort (uniq (map date ss))) = first # rest"
    using Cons by (simp add: uniqueDates_spec)
  show ?thesis
    unfolding calculateStreaks_Cons [OF u] b
    by (simp add: Cons spec_currentStreak_def spec_active_def currentLoop_runs cur
        del: spec_runs.simps)
qed

lemma spec_current_le_best:
  "spec_currentStreak dayNumber today yesterday ds \<le> spec_bestStreak dayNumber ds"
proof (cases ds)
  case Nil
  then show ?thesis
    by (simp add: spec_currentStreak_def spec_bestStreak_def spec_active_def maxRun_simps)
next
  case (Cons d rest)
  have r: "spec_runs dayNumber (d # rest) =
           hd (spec_runs dayNumber (d # rest)) # tl (spec_runs dayNumber (d # rest))"
    using spec_runs_nonempty [of dayNumber d rest] by simp
  have "(case spec_runs dayNumber (d # rest) of [] \<Rightarrow> 0 | r # _ \<Rightarrow> int (length r)) =
        int (length (hd (spec_runs dayNumber (d # rest))))"
    by (subst r) simp
  then show ?thesis
    using maxRun_nonneg [of "tl (spec_runs dayNumber (d # rest))"]
    by (simp add: Cons spec_currentStreak_def spec_bestStreak_Cons le_max_iff_disj
        del: spec_runs.simps)
qed

lemma spec_dates_of_set:
  assumes "set (map date ss) = set ds" and "sorted (rev ds)" and "distinct ds"
  shows "spec_dates ss = ds"
proof -
  have "sort (remdups (map date ss)) = rev ds"
    using assms by (intro sorted_distinct_set_unique) simp_all
  then show ?thesis by (simp add: spec_dates_def)
qed

lemma three_day_streak:
  assumes "set (map date ss) = {d0, d1, d2}" and "d2 < d1" and "d1 < d0"
    and "dayNumber d0 = Some n" and "dayNumber d1 = Some (n - 1)"
    and "dayNumber d2 = Some (n - 2)"
  shows "calculateStreaks dayNumber d0 yesterday ss = \<lparr>current = 3, best = 3\<rparr>"
proof -
  have "spec_dates ss = [d0, d1, d2]"
    using assms(1-3) by (intro spec_dates_of_set) auto
  then show ?thesis
    using assms(4-6)
    by (simp add: calculateStreaks_runs spec_currentStreak_def spec_bestStreak_def
        spec_active_def oneDayGap_def maxRun_simps)
qed

lemma stale_two_day_streak:
  assumes "set (map date ss) = {e5, e6}" and "e6 < e5"
    and "dayNumber today = Some n" and "dayNumber yesterday = Some (n - 1)"
    and "dayNumber e5 = Some (n - 5)" and "dayNumber e6 = Some (n - 6)"
  shows "calculateStreaks dayNumber today yesterday ss = \<lparr>current = 0, best = 2\<rparr>"
proof -
  have "spec_dates ss = [e5, e6]"
    using assms(1,2) by (intro spec_dates_of_set) auto
  moreover have "e5 \<noteq> today" "e5 \<noteq> yesterday"
    using assms(3-5) by auto
  ultimately show ?thesis
    using assms(5,6)
    by (simp add: calculateStreaks_runs spec_currentStreak_def spec_bestStreak_def
        spec_active_def oneDayGap_def maxRun_simps)
qed


text \<open>
  Claim C5. \<open>calculateStreaks\<close> computes the streak algorithm of the specification:
  on the distinct session dates sorted descending, the streak is active iff the most
  recent date is today or yesterday, a gap of exactly one day continues a run and
  any other gap breaks it, the best streak is the longest run, and the current
  streak is the run that starts at the most recent date when active and 0
  otherwise. For sessions on the days \<open>D\<close>, \<open>D - 1\<close>, \<open>D - 2\<close> with \<open>D\<close> today the
  current streak is 3 and the best at least 3; for sessions on \<open>D - 5\<close> and
  \<open>D - 6\<close> only, the current streak is 0 and the best is 2. Date strings are
  compared as strings, which for ISO dates is the order of the days.
\<close>

theorem streak_algorithm:
  "calculateStreaks dayNumber today yesterday ss =
     \<lparr>current = spec_currentStreak dayNumber today yesterday (spec_dates ss),
      best = spec_bestStreak dayNumber (spec_dates ss)\<rparr> \<and>
   (set (map date ss) = {d0, d1, d2} \<and> d2 < d1 \<and> d1 < d0 \<and> today = d0 \<and>
    dayNumber d0 = Some n \<and> dayNumber d1 = Some (n - 1) \<and> dayNumber d2 = Some (n - 2) \<longrightarrow>
      current (calculateStreaks dayNumber today yesterday ss) = 3 \<and>
      3 \<le> best (calculateStreaks dayNumber today yesterday ss)) \<and>
   (set (map date ss) = {e5, e6} \<and> e6 < e5 \<and>
    dayNumber today = Some m \<and> dayNumber yesterday = Some (m - 1) \<and>
    dayNumber e5 = Some (m - 5) \<and> dayNumber e6 = Some (m - 6) \<longrightarrow>
      calculateStreaks dayNumber today yesterday ss = \<lparr>current = 0, best = 2\<rparr>)"
proof -
  have a: "calculateStreaks dayNumber today yesterday ss =
     \<lparr>current = spec_currentStreak dayNumber today yesterday (spec_dates ss),
      best = spec_bestStreak dayNumber (spec_dates ss)\<rparr>"
    by (rule calculateStreaks_runs)
  have b: "current (calculateStreaks dayNumber today yesterday ss) = 3 \<and>
           3 \<le> best (calculateStreaks dayNumber today yesterday ss)"
    if "set (map date ss) = {d0, d1, d2}" "d2 < d1" "d1 < d0" "today = d0"
      "dayNumber d0 = Some n" "dayNumber d1 = Some (n - 1)" "dayNumber d2 = Some (n - 2)"
    using three_day_streak [OF that(1,2,3,5,6,7), of yesterday] that(4) by simp
  have c: "calculateStreaks dayNumber today yesterday ss = \<lparr>current = 0, best = 2\<rparr>"
    if "set (map date ss) = {e5, e6}" "e6 < e5" "dayNumber today = Some m"
      "dayNumber yesterday = Some (m - 1)" "dayNumber e5 = Some (m - 5)"
      "dayNumber e6 = Some (m - 6)"
    using that by (rule stale_two_day_streak)
  show ?thesis
    using a b c by blast
qed

theorem streak_algorithm_witness:
  "set (map date (sessionsOn [''2024-03-02'', ''2024-02-29'', ''2024-03-01'', ''2024-03-02''])) =
     {''2024-03-02'', ''2024-03-01'', ''2024-02-29''} \<and>
   (''2024-02-29'' :: string) < ''2024-03-01'' \<and> (''2024-03-01'' :: string) < ''2024-03-02'' \<and>
   isoDayNumber ''2024-03-02'' = Some 19784 \<and>
   isoDayNumber ''2024-03-01'' = Some (19784 - 1) \<and>
   isoDayNumber ''2024-02-29'' = Some (19784 - 2) \<and>
   current (calculateStreaks isoDayNumber ''2024-03-02'' ''2024-03-01''
     (sessionsOn [''2024-03-02'', ''2024-02-29'', ''2024-03-01'', ''2024-03-02''])) = 3 \<and>
   3 \<le> best (calculateStreaks isoDayNumber ''2024-03-02'' ''2024-03-01''
     (sessionsOn [''2024-03-02'', ''2024-02-29'', ''2024-03-01'', ''2024-03-02''])) \<and>
   set (map date (sessionsOn [''2024-02-25'', ''2024-02-26'', ''2024-02-25''])) =
     {''2024-02-26'', ''2024-02-25''} \<and>
   (''2024-02-25'' :: string) < ''2024-02-26'' \<and>
   isoDayNumber ''2024-02-26'' = Some (19784 - 5) \<and>
   isoDayNumber ''2024-02-25'' = Some (19784 - 6) \<and>
   calculateStreaks isoDayNumber ''2024-03-02'' ''2024-03-01''
     (sessionsOn [''2024-02-25'', ''2024-02-26'', ''2024-02-25'']) =
     \<lparr>current = 0, best = 2\<rparr>"
proof -
  have d: "isoDayNumber ''2024-03-02'' = Some 19784" "isoDayNumber ''2024-03-01'' = Some 19783"
    "isoDayNumber ''2024-02-29'' = Some 19782" "isoDayNumber ''2024-02-26'' = Some 19779"
    "isoDayNumber ''2024-02-25'' = Some 19778"
    by (simp_all add: isoDayNumber_def isDigit_def digitsValue_def digitValue_def
        daysFromCivil_def daysInMonth_def)
  have s1: "date ` set (sessionsOn [''2024-03-02'', ''2024-02-29'', ''2024-03-01'', ''2024-03-02'']) =
     {''2024-03-02'', ''2024-03-01'', ''2024-02-29''}"
    by (auto simp: sessionsOn_def)
  have s2: "date ` set (sessionsOn [''2024-02-25'', ''2024-02-26'', ''2024-02-25'']) =
     {''2024-02-26'', ''2024-02-25''}"
    by (auto simp: sessionsOn_def)
  have r1: "current (calculateStreaks isoDayNumber ''2024-03-02'' ''2024-03-01''
               (sessionsOn [''2024-03-02'', ''2024-02-29'', ''2024-03-01'', ''2024-03-02''])) = 3 \<and>
            3 \<le> best (calculateStreaks isoDayNumber ''2024-03-02'' ''2024-03-01''
               (sessionsOn [''2024-03-02'', ''2024-02-29'', ''2024-03-01'', ''2024-03-02'']))"
    using streak_algorithm [where dayNumber = isoDayNumber and today = "''2024-03-02''"
        and yesterday = "''2024-03-01''"
        and ss = "sessionsOn [''2024-03-02'', ''2024-02-29'', ''2024-03-01'', ''2024-03-02'']"
        and ?d0.0 = "''2024-03-02''" and ?d1.0 = "''2024-03-01''" and ?d2.0 = "''2024-02-29''"
        and n = 19784, THEN conjunct2, THEN conjunct1]
    by (simp add: d s1)
  have r2: "calculateStreaks isoDayNumber ''2024-03-02'' ''2024-03-01''
              (sessionsOn [''2024-02-25'', ''2024-02-26'', ''2024-02-25'']) =
            \<lparr>current = 0, best = 2\<rparr>"
    using streak_algorithm [where dayNumber = isoDayNumber and today = "''2024-03-02''"
        and yesterday = "''2024-03-01''"
        and ss = "sessionsOn [''2024-02-25'', ''2024-02-26'', ''2024-02-25'']"
        and ?e5.0 = "''2024-02-26''" and ?e6.0 = "''2024-02-25''" and m = 19784,
        THEN conjunct2, THEN conjunct2]
    by (simp add: d s2)
  show ?thesis
    using r1 r2 by (simp add: d s1 s2)
qed

text \<open>
  Claim C10. For every list of sessions the best streak is at least the current
  streak, and both are 0 for the empty list.
\<close>

theorem best_streak_ge_current:
  "current (calculateStreaks dayNumber today yesterday ss) \<le>
     best (calculateStreaks dayNumber today yesterday ss) \<and>
   calculateStreaks dayNumber today yesterday [] = \<lparr>current = 0, best = 0\<rparr>"
proof -
  have "current (calculateStreaks dayNumber today yesterday ss) \<le>
        best (calculateStreaks dayNumber today yesterday ss)"
    using spec_current_le_best [of dayNumber today yesterday "spec_dates ss"]
    by (simp add: calculateStreaks_runs)
  moreover have "calculateStreaks dayNumber today yesterday [] = \<lparr>current = 0, best = 0\<rparr>"
    by (simp add: calculateStreaks_def)
  ultimately show ?thesis by simp
qed

end
